theory Spec2Isabelle
  imports Complex_Main "HOL-Library.Word"
begin

unbundle bit_operations_syntax

section \<open>Bytes, strings and the library functions the code calls\<close>

text \<open>
  Go byte slices are lists of 8-bit words. A Go string is a byte sequence as well; it is
  kept as an Isabelle \<open>string\<close> (a list of 8-bit characters), and \<open>[]byte(s)\<close> /
  \<open>string(b)\<close> are the two conversions. Time is a count of nanoseconds.
\<close>

type_synonym byte = "8 word"
type_synonym bytes = "byte list"
type_synonym u32 = "32 word"
type_synonym time = int
type_synonym uuid = string

datatype err =
    KeyLengthError
  | IntegrityError
  | EntropyError
  | CorruptInputError
  | ErrNotFound
  | Failure string

definition string_bytes :: "string \<Rightarrow> bytes" where
  "string_bytes s = map of_char s"

definition bytes_string :: "bytes \<Rightarrow> string" where
  "bytes_string b = map (\<lambda>x. char_of (unat x)) b"

text \<open>
  \<open>io.ReadFull(rand.Reader, buf)\<close>: the random source is the pool of bytes it will
  deliver; reading \<open>n\<close> bytes fails when the source gives fewer.
\<close>

definition ReadFull :: "bytes \<Rightarrow> nat \<Rightarrow> bytes option" where
  "ReadFull pool n = (if length pool < n then None else Some (take n pool))"

subsection \<open>package strings (ASCII)\<close>

text \<open>
  \<open>strings.TrimSpace\<close>, \<open>strings.ToLower\<close>, \<open>strings.Fields\<close> and
  \<open>strings.Join\<close>, as they act on ASCII text: the white space characters are tab,
  line feed, vertical tab, form feed, carriage return and space, and the letters
  \<open>A\<close> to \<open>Z\<close> are lowered. Bytes from 128 on (UTF-8 sequences) are left as they
  are; every phrase evaluated below is ASCII.
\<close>

definition isSpace :: "char \<Rightarrow> bool" where
  "isSpace c = (let n = (of_char c :: nat) in (9 \<le> n \<and> n \<le> 13) \<or> n = 32)"

definition toLowerChar :: "char \<Rightarrow> char" where
  "toLowerChar c = (let n = (of_char c :: nat) in if 65 \<le> n \<and> n \<le> 90 then char_of (n + 32) else c)"

definition ToLower :: "string \<Rightarrow> string" where
  "ToLower s = map toLowerChar s"

definition TrimSpace :: "string \<Rightarrow> string" where
  "TrimSpace s = rev (dropWhile isSpace (rev (dropWhile isSpace s)))"

fun fields_from :: "string \<Rightarrow> string \<Rightarrow> string list" where
  "fields_from cur [] = (if cur = [] then [] else [cur])"
| "fields_from cur (c # cs) =
     (if isSpace c then (if cur = [] then fields_from [] cs else cur # fields_from [] cs)
      else fields_from (cur @ [c]) cs)"

definition Fields :: "string \<Rightarrow> string list" where
  "Fields s = fields_from [] s"

fun Join :: "string list \<Rightarrow> string \<Rightarrow> string" where
  "Join [] sep = []"
| "Join [w] sep = w"
| "Join (w # ws) sep = w @ sep @ Join ws sep"

subsection \<open>encoding/hex and encoding/base64\<close>

definition hex_digit :: "nat \<Rightarrow> char" where
  "hex_digit n = ''0123456789abcdef'' ! n"

definition hex_EncodeToString :: "bytes \<Rightarrow> string" where
  "hex_EncodeToString bs = concat (map (\<lambda>b. [hex_digit (unat b div 16), hex_digit (unat b mod 16)]) bs)"

definition b64_alphabet :: string where
  "b64_alphabet = ''ABCDEFGHIJKLMNOPQRSTUVWXYZabcdefghijklmnopqrstuvwxyz0123456789+/''"

definition b64_char :: "nat \<Rightarrow> char" where
  "b64_char n = b64_alphabet ! n"

fun index_of :: "'a \<Rightarrow> 'a list \<Rightarrow> nat option" where
  "index_of x [] = None"
| "index_of x (y # ys) = (if x = y then Some 0 else map_option Suc (index_of x ys))"

definition b64_val :: "char \<Rightarrow> nat option" where
  "b64_val c = index_of c b64_alphabet"

text \<open>\<open>base64.StdEncoding.EncodeToString\<close>: three bytes make four characters, padded with \<open>=\<close>.\<close>

fun base64_EncodeToString :: "bytes \<Rightarrow> string" where
  "base64_EncodeToString (a # b # c # rest) =
     [b64_char (unat a div 4), b64_char (unat a mod 4 * 16 + unat b div 16),
      b64_char (unat b mod 16 * 4 + unat c div 64), b64_char (unat c mod 64)]
     @ base64_EncodeToString rest"
| "base64_EncodeToString [a, b] =
     [b64_char (unat a div 4), b64_char (unat a mod 4 * 16 + unat b div 16),
      b64_char (unat b mod 16 * 4), CHR ''='']"
| "base64_EncodeToString [a] =
     [b64_char (unat a div 4), b64_char (unat a mod 4 * 16), CHR ''='', CHR ''='']"
| "base64_EncodeToString [] = []"

fun b64_decode_quads :: "string \<Rightarrow> bytes option" where
  "b64_decode_quads [] = Some []"
| "b64_decode_quads (c0 # c1 # c2 # c3 # rest) =
     (case (b64_val c0, b64_val c1) of
        (Some x0, Some x1) \<Rightarrow>
          (if rest = [] \<and> c2 = CHR ''='' \<and> c3 = CHR ''='' then Some [of_nat (x0 * 4 + x1 div 16)]
           else (case b64_val c2 of
                   Some x2 \<Rightarrow>
                     (if rest = [] \<and> c3 = CHR ''=''
                      then Some [of_nat (x0 * 4 + x1 div 16), of_nat (x1 mod 16 * 16 + x2 div 4)]
                      else (case b64_val c3 of
                              Some x3 \<Rightarrow>
                                map_option
                                  (\<lambda>r. [of_nat (x0 * 4 + x1 div 16), of_nat (x1 mod 16 * 16 + x2 div 4),
                                        of_nat (x2 mod 4 * 64 + x3)] @ r)
                                  (b64_decode_quads rest)
                            | None \<Rightarrow> None))
                 | None \<Rightarrow> None))
      | _ \<Rightarrow> None)"
| "b64_decode_quads _ = None"

text \<open>\<open>base64.StdEncoding.DecodeString\<close> skips carriage returns and line feeds.\<close>

definition base64_DecodeString :: "string \<Rightarrow> bytes option" where
  "base64_DecodeString s = b64_decode_quads (filter (\<lambda>c. c \<noteq> CHR 0x0D \<and> c \<noteq> CHR 0x0A) s)"

subsection \<open>crypto/sha256 (FIPS 180-4)\<close>

definition rotr :: "nat \<Rightarrow> u32 \<Rightarrow> u32" where
  "rotr n x = (drop_bit n x) OR (push_bit (32 - n) x)"

definition K256 :: "u32 list" where
  "K256 =
    [0x428A2F98, 0x71374491, 0xB5C0FBCF, 0xE9B5DBA5, 0x3956C25B, 0x59F111F1, 0x923F82A4, 0xAB1C5ED5,
     0xD807AA98, 0x12835B01, 0x243185BE, 0x550C7DC3, 0x72BE5D74, 0x80DEB1FE, 0x9BDC06A7, 0xC19BF174,
     0xE49B69C1, 0xEFBE4786, 0x0FC19DC6, 0x240CA1CC, 0x2DE92C6F, 0x4A7484AA, 0x5CB0A9DC, 0x76F988DA,
     0x983E5152, 0xA831C66D, 0xB00327C8, 0xBF597FC7, 0xC6E00BF3, 0xD5A79147, 0x06CA6351, 0x14292967,
     0x27B70A85, 0x2E1B2138, 0x4D2C6DFC, 0x53380D13, 0x650A7354, 0x766A0ABB, 0x81C2C92E, 0x92722C85,
     0xA2BFE8A1, 0xA81A664B, 0xC24B8B70, 0xC76C51A3, 0xD192E819, 0xD6990624, 0xF40E3585, 0x106AA070,
     0x19A4C116, 0x1E376C08, 0x2748774C, 0x34B0BCB5, 0x391C0CB3, 0x4ED8AA4A, 0x5B9CCA4F, 0x682E6FF3,
     0x748F82EE, 0x78A5636F, 0x84C87814, 0x8CC70208, 0x90BEFFFA, 0xA4506CEB, 0xBEF9A3F7, 0xC67178F2]"

definition init256 :: "u32 list" where
  "init256 =
    [0x6A09E667, 0xBB67AE85, 0x3C6EF372, 0xA54FF53A, 0x510E527F, 0x9B05688C, 0x1F83D9AB, 0x5BE0CD19]"

definition be32 :: "bytes \<Rightarrow> u32" where
  "be32 bs = foldl (\<lambda>acc b. push_bit 8 acc OR ucast b) 0 bs"

fun chunks4 :: "bytes \<Rightarrow> u32 list" where
  "chunks4 (a # b # c # d # rest) = be32 [a, b, c, d] # chunks4 rest"
| "chunks4 _ = []"

definition len_bytes :: "nat \<Rightarrow> bytes" where
  "len_bytes n = map (\<lambda>k. ucast (drop_bit k (word_of_nat (8 * n) :: 64 word))) [56, 48, 40, 32, 24, 16, 8, 0]"

definition sha_pad :: "bytes \<Rightarrow> bytes" where
  "sha_pad m = m @ [0x80] @ replicate ((119 - length m mod 64) mod 64) 0 @ len_bytes (length m)"

fun schedule :: "nat \<Rightarrow> u32 list \<Rightarrow> u32 list" where
  "schedule 0 w = w"
| "schedule (Suc n) w =
     (let i = length w;
          s0 = rotr 7 (w ! (i - 15)) XOR rotr 18 (w ! (i - 15)) XOR drop_bit 3 (w ! (i - 15));
          s1 = rotr 17 (w ! (i - 2)) XOR rotr 19 (w ! (i - 2)) XOR drop_bit 10 (w ! (i - 2))
      in schedule n (w @ [w ! (i - 16) + s0 + w ! (i - 7) + s1]))"

record regs =
  ra :: u32
  rb :: u32
  rc :: u32
  rd :: u32
  re :: u32
  rf :: u32
  rg :: u32
  rh :: u32

definition round256 :: "regs \<Rightarrow> u32 \<times> u32 \<Rightarrow> regs" where
  "round256 r kw =
     (let S1 = rotr 6 (re r) XOR rotr 11 (re r) XOR rotr 25 (re r);
          ch = (re r AND rf r) XOR (NOT (re r) AND rg r);
          t1 = rh r + S1 + ch + fst kw + snd kw;
          S0 = rotr 2 (ra r) XOR rotr 13 (ra r) XOR rotr 22 (ra r);
          maj = (ra r AND rb r) XOR (ra r AND rc r) XOR (rb r AND rc r);
          t2 = S0 + maj
      in \<lparr>ra = t1 + t2, rb = ra r, rc = rb r, rd = rc r, re = rd r + t1, rf = re r, rg = rf r, rh = rg r\<rparr>)"

definition compress :: "u32 list \<Rightarrow> u32 list \<Rightarrow> u32 list" where
  "compress h blk =
     (let w = schedule 48 blk;
          r0 = \<lparr>ra = h ! 0, rb = h ! 1, rc = h ! 2, rd = h ! 3, re = h ! 4, rf = h ! 5, rg = h ! 6, rh = h ! 7\<rparr>;
          r = foldl round256 r0 (zip K256 w)
      in map2 (+) h [ra r, rb r, rc r, rd r, re r, rf r, rg r, rh r])"

fun blocks :: "nat \<Rightarrow> u32 list \<Rightarrow> u32 list \<Rightarrow> u32 list" where
  "blocks 0 h ws = h"
| "blocks (Suc n) h ws = blocks n (compress h (take 16 ws)) (drop 16 ws)"

definition word_bytes :: "u32 \<Rightarrow> bytes" where
  "word_bytes w = [ucast (drop_bit 24 w), ucast (drop_bit 16 w), ucast (drop_bit 8 w), ucast w]"

definition sha256 :: "bytes \<Rightarrow> bytes" where
  "sha256 m = (let ws = chunks4 (sha_pad m)
               in concat (map word_bytes (blocks (length ws div 16) init256 ws)))"

section \<open>internal/crypto: keys.go\<close>

definition argonTime :: nat where "argonTime = 3"
definition argonMemory :: nat where "argonMemory = 64 * 1024"
definition argonThreads :: nat where "argonThreads = 4"
definition argonKeyLen :: nat where "argonKeyLen = 32"

definition wordList :: "string list" where
  "wordList =
    [''abandon'', ''ability'', ''able'', ''about'', ''above'', ''absent'', ''absorb'', ''abstract'',
     ''absurd'', ''abuse'', ''access'', ''accident'', ''account'', ''accuse'', ''achieve'', ''acid'',
     ''acoustic'', ''acquire'', ''across'', ''act'', ''action'', ''actor'', ''actress'', ''actual'',
     ''adapt'', ''add'', ''addict'', ''address'', ''adjust'', ''admit'', ''adult'', ''advance'',
     ''advice'', ''aerobic'', ''affair'', ''afford'', ''afraid'', ''again'', ''age'', ''agent'',
     ''agree'', ''ahead'', ''aim'', ''air'', ''airport'', ''aisle'', ''alarm'', ''album'',
     ''alcohol'', ''alert'', ''alien'', ''all'', ''alley'', ''allow'', ''almost'', ''alone'',
     ''alpha'', ''already'', ''also'', ''alter'', ''always'', ''amateur'', ''amazing'', ''among'',
     ''amount'', ''amused'', ''analyst'', ''anchor'', ''ancient'', ''anger'', ''angle'', ''angry'',
     ''animal'', ''ankle'', ''announce'', ''annual'', ''another'', ''answer'', ''antenna'', ''antique'',
     ''anxiety'', ''any'', ''apart'', ''apology'', ''appear'', ''apple'', ''approve'', ''april'',
     ''arch'', ''arctic'', ''area'', ''arena'', ''argue'', ''arm'', ''armed'', ''armor'',
     ''army'', ''around'', ''arrange'', ''arrest'', ''arrive'', ''arrow'', ''art'', ''artefact'',
     ''artist'', ''artwork'', ''ask'', ''aspect'', ''assault'', ''asset'', ''assist'', ''assume'',
     ''asthma'', ''athlete'', ''atom'', ''attack'', ''attend'', ''attitude'', ''attract'', ''auction'',
     ''audit'', ''august'', ''aunt'', ''author'', ''auto'', ''autumn'', ''average'', ''avocado'',
     ''avoid'', ''awake'', ''aware'', ''away'', ''awesome'', ''awful'', ''awkward'', ''axis'',
     ''baby'', ''bachelor'', ''bacon'', ''badge'', ''bag'', ''balance'', ''balcony'', ''ball'',
     ''bamboo'', ''banana'', ''banner'', ''bar'', ''barely'', ''bargain'', ''barrel'', ''base'',
     ''basic'', ''basket'', ''battle'', ''beach'', ''bean'', ''beauty'', ''because'', ''become'',
     ''beef'', ''before'', ''begin'', ''behave'', ''behind'', ''believe'', ''below'', ''belt'',
     ''bench'', ''benefit'', ''best'', ''betray'', ''better'', ''between'', ''beyond'', ''bicycle'',
     ''bid'', ''bike'', ''bind'', ''biology'', ''bird'', ''birth'', ''bitter'', ''black'',
     ''blade'', ''blame'', ''blanket'', ''blast'', ''bleak'', ''bless'', ''blind'', ''blood'',
     ''blossom'', ''blouse'', ''blue'', ''blur'', ''blush'', ''board'', ''boat'', ''body'',
     ''boil'', ''bomb'', ''bone'', ''bonus'', ''book'', ''boost'', ''border'', ''boring'',
     ''borrow'', ''boss'', ''bottom'', ''bounce'', ''box'', ''boy'', ''bracket'', ''brain'',
     ''brand'', ''brass'', ''brave'', ''bread'', ''breeze'', ''brick'', ''bridge'', ''brief'',
     ''bright'', ''bring'', ''brisk'', ''broccoli'', ''broken'', ''bronze'', ''broom'', ''brother'',
     ''brown'', ''brush'', ''bubble'', ''buddy'', ''budget'', ''buffalo'', ''build'', ''bulb'',
     ''bulk'', ''bullet'', ''bundle'', ''bunker'', ''burden'', ''burger'', ''burst'', ''bus'',
     ''business'', ''busy'', ''butter'', ''buyer'', ''buzz'', ''cabbage'', ''cabin'', ''cable'']"

text \<open>
  The primitives of other libraries that the code calls and that are not evaluated here:
  \<open>argon2.IDKey\<close> and the authenticated cipher behind \<open>Encrypt\<close>/\<open>Decrypt\<close>
  (sealing and opening under a key and a nonce, with its nonce and tag sizes).
\<close>

record primitives =
  argon2_IDKey :: "bytes \<Rightarrow> bytes \<Rightarrow> nat \<Rightarrow> nat \<Rightarrow> nat \<Rightarrow> nat \<Rightarrow> bytes"
  aead_seal :: "bytes \<Rightarrow> bytes \<Rightarrow> bytes \<Rightarrow> bytes"
  aead_open :: "bytes \<Rightarrow> bytes \<Rightarrow> bytes \<Rightarrow> bytes option"
  nonce_size :: nat
  tag_size :: nat

definition DeriveKeyFromSecret :: "primitives \<Rightarrow> bytes \<Rightarrow> bytes \<Rightarrow> bytes" where
  "DeriveKeyFromSecret P secret salt =
     argon2_IDKey P secret salt argonTime argonMemory argonThreads argonKeyLen"

definition DeriveKeyFromPassphrase :: "primitives \<Rightarrow> string \<Rightarrow> bytes \<Rightarrow> bytes" where
  "DeriveKeyFromPassphrase P passphrase salt =
     (let words = Fields (ToLower (TrimSpace passphrase));
          normalized = Join words '' ''
      in DeriveKeyFromSecret P (string_bytes normalized) salt)"

definition GenerateRecoveryPhrase :: "bytes \<Rightarrow> err + string" where
  "GenerateRecoveryPhrase pool =
     (case ReadFull pool 16 of
        None \<Rightarrow> Inl EntropyError
      | Some entropy \<Rightarrow>
          Inr (Join (map (\<lambda>i. wordList ! ((unat (entropy ! (i mod 16)) XOR unat (entropy ! ((i + 1) mod 16)))
                                            mod length wordList))
                         [0..<12])
                    '' ''))"

definition HashRecoveryPhrase :: "string \<Rightarrow> bytes" where
  "HashRecoveryPhrase passphrase =
     (let normalized = ToLower (TrimSpace passphrase) in sha256 (string_bytes normalized))"

definition VerifyRecoveryPhrase :: "string \<Rightarrow> bytes \<Rightarrow> bool" where
  "VerifyRecoveryPhrase passphrase storedHash =
     (let hash = HashRecoveryPhrase passphrase
      in if length hash \<noteq> length storedHash then False
         else foldl (\<lambda>diff (h, s). diff OR (h XOR s)) (0 :: byte) (zip hash storedHash) = 0)"

definition GenerateRandomHex :: "bytes \<Rightarrow> nat \<Rightarrow> err + string" where
  "GenerateRandomHex pool byteLen =
     (case ReadFull pool byteLen of
        None \<Rightarrow> Inl EntropyError
      | Some bs \<Rightarrow> Inr (hex_EncodeToString bs))"


section \<open>internal/crypto: Encrypt, Decrypt and the random keys\<close>

text \<open>
  Modelled from the spec: \<open>Encrypt\<close>, \<open>Decrypt\<close>, \<open>GenerateDEK\<close> and
  \<open>GenerateSalt\<close> of internal/crypto are called and tested by the sources, their
  bodies are not among them. Section 4.1: Encrypt is authenticated encryption under a
  32-byte key with a fresh random nonce, embedded in its output; Decrypt fails with a
  key-length error on a key of the wrong length, and with an integrity error on a
  ciphertext shorter than nonce plus tag or whose tag does not verify; the generated key
  has 32 bytes and the salt 16. The test table of TestEncryptDecrypt has Encrypt refuse
  keys of 16 and 64 bytes.
\<close>

definition Encrypt :: "primitives \<Rightarrow> bytes \<Rightarrow> bytes \<Rightarrow> bytes \<Rightarrow> err + bytes" where
  "Encrypt P pool plaintext key =
     (if length key \<noteq> 32 then Inl KeyLengthError
      else case ReadFull pool (nonce_size P) of
             None \<Rightarrow> Inl EntropyError
           | Some nonce \<Rightarrow> Inr (nonce @ aead_seal P key nonce plaintext))"

definition Decrypt :: "primitives \<Rightarrow> bytes \<Rightarrow> bytes \<Rightarrow> err + bytes" where
  "Decrypt P ciphertext key =
     (if length key \<noteq> 32 then Inl KeyLengthError
      else if length ciphertext < nonce_size P + tag_size P then Inl IntegrityError
      else case aead_open P key (take (nonce_size P) ciphertext) (drop (nonce_size P) ciphertext) of
             None \<Rightarrow> Inl IntegrityError
           | Some plaintext \<Rightarrow> Inr plaintext)"

definition GenerateDEK :: "bytes \<Rightarrow> err + bytes" where
  "GenerateDEK pool = (case ReadFull pool 32 of None \<Rightarrow> Inl EntropyError | Some k \<Rightarrow> Inr k)"

definition GenerateSalt :: "bytes \<Rightarrow> err + bytes" where
  "GenerateSalt pool = (case ReadFull pool 16 of None \<Rightarrow> Inl EntropyError | Some s \<Rightarrow> Inr s)"

text \<open>keys.go again: the two wrappers that protect the data key.\<close>

definition EncryptDEK :: "primitives \<Rightarrow> bytes \<Rightarrow> bytes \<Rightarrow> bytes \<Rightarrow> err + bytes" where
  "EncryptDEK P pool dek kek = Encrypt P pool dek kek"

definition DecryptDEK :: "primitives \<Rightarrow> bytes \<Rightarrow> bytes \<Rightarrow> err + bytes" where
  "DecryptDEK P encryptedDEK kek = Decrypt P encryptedDEK kek"

section \<open>internal/models\<close>

record Credential =
  Cred_ID :: bytes
  Cred_UserID :: uuid
  PublicKey :: bytes
  AttestationType :: string
  SignCount :: u32
  Cred_CreatedAt :: time

record User =
  User_ID :: uuid
  Username :: string
  EncryptedDEK :: bytes
  DEKSalt :: bytes
  RecoveryPhraseHash :: bytes
  User_CreatedAt :: time
  User_UpdatedAt :: time
  Credentials :: "Credential list"

record Account =
  Account_ID :: uuid
  Account_UserID :: uuid
  Account_EncryptedData :: bytes

record TransactionData =
  Amount :: real
  Description :: string
  Merchant :: string
  Date :: string

record Transaction =
  Txn_ID :: uuid
  Txn_UserID :: uuid
  Txn_AccountID :: uuid
  Txn_EncryptedData :: bytes
  TransactionDate :: time
  Txn_CreatedAt :: time

record PlaidItem =
  Item_ID :: uuid
  Item_UserID :: uuid
  ItemID :: string
  EncryptedAccessToken :: bytes
  Cursor :: string

record PlaidAccount =
  PA_ID :: uuid
  PlaidItemID :: uuid
  PA_UserID :: uuid
  AccountID :: "uuid option"
  PlaidAccountID :: string
  PA_Name :: string

record PlaidSync =
  Sync_ID :: uuid
  Sync_PlaidItemID :: uuid
  Sync_UserID :: uuid
  AddedCount :: nat
  ModifiedCount :: nat
  RemovedCount :: nat
  CursorBefore :: string
  CursorAfter :: string
  ErrorMessage :: string
  SyncedAt :: time

text \<open>The credential type of the WebAuthn library, with its authenticator.\<close>

record Authenticator =
  Auth_SignCount :: u32
  CloneWarning :: bool

record WebAuthnCredential =
  WA_ID :: bytes
  WA_PublicKey :: bytes
  WA_AttestationType :: string
  WA_Authenticator :: Authenticator

definition WebAuthnCredentials :: "User \<Rightarrow> WebAuthnCredential list" where
  "WebAuthnCredentials u =
     map (\<lambda>c. \<lparr>WA_ID = Cred_ID c, WA_PublicKey = PublicKey c, WA_AttestationType = AttestationType c,
               WA_Authenticator = \<lparr>Auth_SignCount = SignCount c, CloneWarning = False\<rparr>\<rparr>)
         (Credentials u)"

text \<open>
  The WebAuthn library is not part of the sources. When it has verified an assertion
  (challenge and signature), its \<open>ValidateLogin\<close> returns the credential the
  assertion names, after \<open>Authenticator.UpdateCounter\<close> has compared the counter of
  the assertion with the credential's: a counter that is not greater, unless both are
  zero, only raises the clone warning of the returned credential and leaves its count.
\<close>

definition UpdateCounter :: "Authenticator \<Rightarrow> u32 \<Rightarrow> Authenticator" where
  "UpdateCounter a authDataCount =
     (if authDataCount \<le> Auth_SignCount a \<and> (authDataCount \<noteq> 0 \<or> Auth_SignCount a \<noteq> 0)
      then a\<lparr>CloneWarning := True\<rparr>
      else a\<lparr>Auth_SignCount := authDataCount\<rparr>)"

definition validated_credential :: "User \<Rightarrow> bytes \<Rightarrow> u32 \<Rightarrow> WebAuthnCredential option" where
  "validated_credential user credentialID authDataCount =
     map_option (\<lambda>c. c\<lparr>WA_Authenticator := UpdateCounter (WA_Authenticator c) authDataCount\<rparr>)
       (find (\<lambda>c. WA_ID c = credentialID) (WebAuthnCredentials user))"

section \<open>internal/auth: the session store\<close>

record SessionData =
  Session :: string
  SD_Username :: string
  SD_UserID :: uuid
  ExpiresAt :: time

type_synonym SessionStore = "string \<rightharpoonup> SessionData"

definition minute :: time where
  "minute = 60 * 1000000000"

definition NewSessionStore :: SessionStore where
  "NewSessionStore = Map.empty"

definition SessionStore_Save :: "SessionStore \<Rightarrow> time \<Rightarrow> string \<Rightarrow> string \<Rightarrow> string \<Rightarrow> uuid \<Rightarrow> SessionStore" where
  "SessionStore_Save s now key session username userID =
     s(key \<mapsto> \<lparr>Session = session, SD_Username = username, SD_UserID = userID, ExpiresAt = now + 5 * minute\<rparr>)"

definition SessionStore_Get :: "SessionStore \<Rightarrow> time \<Rightarrow> string \<Rightarrow> SessionData option" where
  "SessionStore_Get s now key =
     (case s key of
        None \<Rightarrow> None
      | Some data \<Rightarrow> if now > ExpiresAt data then None else Some data)"

definition SessionStore_Delete :: "SessionStore \<Rightarrow> string \<Rightarrow> SessionStore" where
  "SessionStore_Delete s key = s(key := None)"

text \<open>One tick of the cleanup loop: every expired session is removed.\<close>

definition SessionStore_cleanup :: "SessionStore \<Rightarrow> time \<Rightarrow> SessionStore" where
  "SessionStore_cleanup s now =
     (\<lambda>key. case s key of
              None \<Rightarrow> None
            | Some data \<Rightarrow> if now > ExpiresAt data then None else Some data)"

section \<open>internal/repository\<close>

text \<open>
  The tables the handlers below read and write. Every repository method issues one SQL
  statement (two where it loads a user's credentials); whether the database carries a
  statement out is decided outside the program, so each method takes a flag that says
  whether its statement fails. A statement that is carried out has its effect on the
  table.
\<close>

record database =
  users :: "User list"
  credentials :: "Credential list"
  accounts :: "Account list"
  transactions :: "Transaction list"
  plaid_items :: "PlaidItem list"
  plaid_accounts :: "PlaidAccount list"
  plaid_syncs :: "PlaidSync list"

definition UserRepository_Create :: "bool \<Rightarrow> database \<Rightarrow> User \<Rightarrow> err + database" where
  "UserRepository_Create fails D user =
     (if fails then Inl (Failure ''failed to create user'')
      else Inr (D\<lparr>users := users D @ [user\<lparr>Credentials := []\<rparr>]\<rparr>))"

definition GetCredentialsByUserID :: "bool \<Rightarrow> database \<Rightarrow> uuid \<Rightarrow> err + Credential list" where
  "GetCredentialsByUserID fails D userID =
     (if fails then Inl (Failure ''failed to get credentials'')
      else Inr (filter (\<lambda>c. Cred_UserID c = userID) (credentials D)))"

definition load_user :: "bool \<Rightarrow> bool \<Rightarrow> database \<Rightarrow> (User \<Rightarrow> bool) \<Rightarrow> err + User" where
  "load_user fails fails_creds D matching =
     (if fails then Inl (Failure ''failed to get user'')
      else case find matching (users D) of
             None \<Rightarrow> Inl ErrNotFound
           | Some user \<Rightarrow>
               (case GetCredentialsByUserID fails_creds D (User_ID user) of
                  Inl e \<Rightarrow> Inl e
                | Inr creds \<Rightarrow> Inr (user\<lparr>Credentials := creds\<rparr>)))"

definition GetByID :: "bool \<Rightarrow> bool \<Rightarrow> database \<Rightarrow> uuid \<Rightarrow> err + User" where
  "GetByID fails fails_creds D uid = load_user fails fails_creds D (\<lambda>u. User_ID u = uid)"

definition GetByUsername :: "bool \<Rightarrow> bool \<Rightarrow> database \<Rightarrow> string \<Rightarrow> err + User" where
  "GetByUsername fails fails_creds D username = load_user fails fails_creds D (\<lambda>u. Username u = username)"

definition CreateCredential :: "bool \<Rightarrow> database \<Rightarrow> Credential \<Rightarrow> err + database" where
  "CreateCredential fails D cred =
     (if fails then Inl (Failure ''failed to create credential'')
      else Inr (D\<lparr>credentials := credentials D @ [cred]\<rparr>))"

definition UpdateCredentialSignCount :: "bool \<Rightarrow> database \<Rightarrow> bytes \<Rightarrow> u32 \<Rightarrow> err + database" where
  "UpdateCredentialSignCount fails D credID signCount =
     (if fails then Inl (Failure ''failed to update sign count'')
      else Inr (D\<lparr>credentials :=
                   map (\<lambda>c. if Cred_ID c = credID then c\<lparr>SignCount := signCount\<rparr> else c) (credentials D)\<rparr>))"

definition GetItemByID :: "bool \<Rightarrow> database \<Rightarrow> uuid \<Rightarrow> err + PlaidItem" where
  "GetItemByID fails D iid =
     (if fails then Inl (Failure ''failed to get plaid item'')
      else case find (\<lambda>i. Item_ID i = iid) (plaid_items D) of
             None \<Rightarrow> Inl (Failure ''failed to get plaid item'')
           | Some item \<Rightarrow> Inr item)"

definition UpdateItemCursor :: "bool \<Rightarrow> database \<Rightarrow> uuid \<Rightarrow> string \<Rightarrow> err + database" where
  "UpdateItemCursor fails D iid cursor =
     (if fails then Inl (Failure ''failed to update plaid item cursor'')
      else Inr (D\<lparr>plaid_items :=
                   map (\<lambda>i. if Item_ID i = iid then i\<lparr>Cursor := cursor\<rparr> else i) (plaid_items D)\<rparr>))"

definition GetAccountsByItemID :: "bool \<Rightarrow> database \<Rightarrow> uuid \<Rightarrow> err + PlaidAccount list" where
  "GetAccountsByItemID fails D plaidItemID =
     (if fails then Inl (Failure ''failed to get plaid accounts'')
      else Inr (filter (\<lambda>a. PlaidItemID a = plaidItemID) (plaid_accounts D)))"

definition CreateSync :: "bool \<Rightarrow> time \<Rightarrow> database \<Rightarrow> PlaidSync \<Rightarrow> err + database" where
  "CreateSync fails now D sync =
     (if fails then Inl (Failure ''failed to create plaid sync'')
      else Inr (D\<lparr>plaid_syncs := plaid_syncs D @ [sync\<lparr>SyncedAt := now\<rparr>]\<rparr>))"


section \<open>internal/plaid: the provider client\<close>

record PlaidTransaction =
  PT_TransactionId :: string
  PT_AccountId :: string
  PT_Amount :: real
  PT_Name :: string
  PT_MerchantName :: string
  PT_Date :: string

record SyncTransactionsResult =
  Added :: "PlaidTransaction list"
  Modified :: "PlaidTransaction list"
  Removed :: "string list"
  NextCursor :: string
  HasMore :: bool

section \<open>internal/api: the handlers\<close>

text \<open>
  What a handler call receives from outside the program: the clock, the verdicts of the
  database on each statement, the fresh identifiers, the results of the WebAuthn library
  and of the provider, the random sources, and the library functions that encode a
  record as JSON and parse a date.
\<close>

datatype stmt =
    SelectUser
  | SelectCredentials
  | InsertUser
  | InsertCredential
  | UpdateSignCount
  | SelectItem
  | SelectPlaidAccounts nat
  | UpdateCursor
  | InsertSync

record env =
  now :: time
  db_fails :: "stmt \<Rightarrow> bool"
  new_uuid :: "nat \<Rightarrow> uuid"
  wa_begin :: "(string \<times> string) option"
  wa_parse_fails :: bool
  wa_finish :: "WebAuthnCredential option"
  pool_dek :: bytes
  pool_salt :: bytes
  pool_secret :: bytes
  pool_nonce :: bytes
  pool_phrase :: bytes
  jwt_fails :: bool
  plaid_TransactionsSync :: "string \<Rightarrow> string option \<Rightarrow> string + SyncTransactionsResult"
  txn_nonce :: "nat \<Rightarrow> bytes"
  json_Marshal :: "TransactionData \<Rightarrow> bytes option"
  time_Parse :: "string \<Rightarrow> time option"

record state =
  sessions :: SessionStore
  db :: database

record server =
  plaid_configured :: bool

record RegisterBeginRequest =
  RB_Username :: string

record RegisterFinishRequest =
  RF_SessionID :: string
  RF_Credential :: string
  RF_PRFOutput :: string

record LoginBeginRequest =
  LB_Username :: string

record LoginFinishRequest =
  LF_SessionID :: string
  LF_Credential :: string
  LF_PRFOutput :: string

record JWTClaims =
  Claims_UserID :: string
  Claims_EncryptedDEK :: string
  Claims_ExpiresAt :: time
  Claims_IssuedAt :: time
  Claims_Issuer :: string

text \<open>
  A response is an error with its HTTP status and message, or one of the bodies sent
  with status 200. The token of an \<open>AuthResponse\<close> is the signed claims; what the
  middleware reads back from it are the claims themselves.
\<close>

datatype response =
    JSON_error nat string
  | RegisterBeginResponse string string string
  | LoginBeginResponse string string
  | AuthResponse JWTClaims string string
  | SyncTransactionsResponse nat nat nat bool

definition generateJWT :: "env \<Rightarrow> User \<Rightarrow> bytes \<Rightarrow> err + JWTClaims" where
  "generateJWT E user encryptedDEK =
     (if jwt_fails E then Inl (Failure ''signing failed'')
      else Inr \<lparr>Claims_UserID = User_ID user,
                Claims_EncryptedDEK = base64_EncodeToString encryptedDEK,
                Claims_ExpiresAt = now E + 24 * 60 * minute,
                Claims_IssuedAt = now E,
                Claims_Issuer = ''ownu''\<rparr>)"

subsection \<open>auth.go\<close>

definition beginRegistration :: "env \<Rightarrow> RegisterBeginRequest option \<Rightarrow> state \<Rightarrow> response \<times> state" where
  "beginRegistration E request st =
     (case request of
        None \<Rightarrow> (JSON_error 400 ''invalid request'', st)
      | Some req \<Rightarrow>
          if RB_Username req = [] then (JSON_error 400 ''username is required'', st)
          else (case GetByUsername (db_fails E SelectUser) (db_fails E SelectCredentials) (db st) (RB_Username req) of
                  Inr _ \<Rightarrow> (JSON_error 409 ''username already exists'', st)
                | Inl e \<Rightarrow>
                    if e \<noteq> ErrNotFound then (JSON_error 500 ''database error'', st)
                    else (case wa_begin E of
                            None \<Rightarrow> (JSON_error 500 ''failed to begin registration'', st)
                          | Some (options, session) \<Rightarrow>
                              (case GenerateRecoveryPhrase (pool_phrase E) of
                                 Inl _ \<Rightarrow> (JSON_error 500 ''failed to generate recovery phrase'', st)
                               | Inr recoveryPhrase \<Rightarrow>
                                   (let tempUserID = new_uuid E 0;
                                        sessionID = new_uuid E 1
                                    in (RegisterBeginResponse options recoveryPhrase sessionID,
                                        st\<lparr>sessions := SessionStore_Save (sessions st) (now E) sessionID session
                                                          (RB_Username req) tempUserID\<rparr>))))))"

text \<open>
  The body of \<open>finishRegistration\<close> after the session was found; the deferred
  \<open>sessionStore.Delete\<close> runs when it returns, whatever it returns. The key that
  wraps the data key, the user record (with the hash of a recovery phrase generated here)
  and the credential record are built as the source builds them.
\<close>

definition registration_kek :: "primitives \<Rightarrow> env \<Rightarrow> RegisterFinishRequest \<Rightarrow> bytes \<Rightarrow> response + bytes" where
  "registration_kek P E req salt =
     (if RF_PRFOutput req \<noteq> [] then
        (case base64_DecodeString (RF_PRFOutput req) of
           None \<Rightarrow> Inl (JSON_error 400 ''invalid PRF output'')
         | Some prfBytes \<Rightarrow> Inr (DeriveKeyFromSecret P prfBytes salt))
      else
        (let tempSecret = (case GenerateRandomHex (pool_secret E) 32 of Inl _ \<Rightarrow> [] | Inr h \<Rightarrow> h)
         in Inr (DeriveKeyFromSecret P (string_bytes tempSecret) salt)))"

definition new_user :: "env \<Rightarrow> SessionData \<Rightarrow> bytes \<Rightarrow> bytes \<Rightarrow> User" where
  "new_user E sessionData encryptedDEK salt =
     (let recoveryPhrase = (case GenerateRecoveryPhrase (pool_phrase E) of Inl _ \<Rightarrow> [] | Inr p \<Rightarrow> p);
          recoveryHash = HashRecoveryPhrase recoveryPhrase
      in \<lparr>User_ID = SD_UserID sessionData, Username = SD_Username sessionData,
          EncryptedDEK = encryptedDEK, DEKSalt = salt, RecoveryPhraseHash = recoveryHash,
          User_CreatedAt = now E, User_UpdatedAt = now E, Credentials = []\<rparr>)"

definition new_credential :: "env \<Rightarrow> User \<Rightarrow> WebAuthnCredential \<Rightarrow> Credential" where
  "new_credential E user credential =
     \<lparr>Cred_ID = WA_ID credential, Cred_UserID = User_ID user,
      PublicKey = WA_PublicKey credential,
      AttestationType = WA_AttestationType credential,
      SignCount = Auth_SignCount (WA_Authenticator credential),
      Cred_CreatedAt = now E\<rparr>"

definition finishRegistration_found ::
  "primitives \<Rightarrow> env \<Rightarrow> RegisterFinishRequest \<Rightarrow> SessionData \<Rightarrow> state \<Rightarrow> response \<times> state" where
  "finishRegistration_found P E req sessionData st =
     (if wa_parse_fails E then (JSON_error 400 ''failed to parse credential'', st)
      else case wa_finish E of
        None \<Rightarrow> (JSON_error 400 ''failed to verify credential'', st)
      | Some credential \<Rightarrow>
      (case GenerateDEK (pool_dek E) of
        Inl _ \<Rightarrow> (JSON_error 500 ''failed to generate encryption key'', st)
      | Inr dek \<Rightarrow>
      (case GenerateSalt (pool_salt E) of
        Inl _ \<Rightarrow> (JSON_error 500 ''failed to generate salt'', st)
      | Inr salt \<Rightarrow>
      (case registration_kek P E req salt of
        Inl resp \<Rightarrow> (resp, st)
      | Inr kek \<Rightarrow>
      (case EncryptDEK P (pool_nonce E) dek kek of
        Inl _ \<Rightarrow> (JSON_error 500 ''failed to encrypt DEK'', st)
      | Inr encryptedDEK \<Rightarrow>
      (let user = new_user E sessionData encryptedDEK salt
       in case UserRepository_Create (db_fails E InsertUser) (db st) user of
            Inl _ \<Rightarrow> (JSON_error 500 ''failed to create user'', st)
          | Inr D1 \<Rightarrow>
          (let cred = new_credential E user credential
           in case CreateCredential (db_fails E InsertCredential) D1 cred of
                Inl _ \<Rightarrow> (JSON_error 500 ''failed to save credential'', st\<lparr>db := D1\<rparr>)
              | Inr D2 \<Rightarrow>
              (case generateJWT E user encryptedDEK of
                 Inl _ \<Rightarrow> (JSON_error 500 ''failed to generate token'', st\<lparr>db := D2\<rparr>)
               | Inr token \<Rightarrow> (AuthResponse token (User_ID user) (Username user), st\<lparr>db := D2\<rparr>)))))))))"

definition finishRegistration ::
  "primitives \<Rightarrow> env \<Rightarrow> RegisterFinishRequest option \<Rightarrow> state \<Rightarrow> response \<times> state" where
  "finishRegistration P E request st =
     (case request of
        None \<Rightarrow> (JSON_error 400 ''invalid request'', st)
      | Some req \<Rightarrow>
          (case SessionStore_Get (sessions st) (now E) (RF_SessionID req) of
             None \<Rightarrow> (JSON_error 400 ''session expired or invalid'', st)
           | Some sessionData \<Rightarrow>
               (let (resp, st') = finishRegistration_found P E req sessionData st
                in (resp, st'\<lparr>sessions := SessionStore_Delete (sessions st') (RF_SessionID req)\<rparr>))))"

definition beginLogin :: "env \<Rightarrow> LoginBeginRequest option \<Rightarrow> state \<Rightarrow> response \<times> state" where
  "beginLogin E request st =
     (case request of
        None \<Rightarrow> (JSON_error 400 ''invalid request'', st)
      | Some req \<Rightarrow>
          if LB_Username req = [] then (JSON_error 400 ''username is required'', st)
          else (case GetByUsername (db_fails E SelectUser) (db_fails E SelectCredentials) (db st) (LB_Username req) of
                  Inl e \<Rightarrow>
                    if e = ErrNotFound then (JSON_error 404 ''user not found'', st)
                    else (JSON_error 500 ''database error'', st)
                | Inr user \<Rightarrow>
                    (case wa_begin E of
                       None \<Rightarrow> (JSON_error 500 ''failed to begin login'', st)
                     | Some (options, session) \<Rightarrow>
                         (let sessionID = new_uuid E 0
                          in (LoginBeginResponse options sessionID,
                              st\<lparr>sessions := SessionStore_Save (sessions st) (now E) sessionID session
                                                (Username user) (User_ID user)\<rparr>)))))"

definition finishLogin_found ::
  "env \<Rightarrow> LoginFinishRequest \<Rightarrow> SessionData \<Rightarrow> state \<Rightarrow> response \<times> state" where
  "finishLogin_found E req sessionData st =
     (case GetByUsername (db_fails E SelectUser) (db_fails E SelectCredentials) (db st) (SD_Username sessionData) of
        Inl _ \<Rightarrow> (JSON_error 500 ''failed to get user'', st)
      | Inr user \<Rightarrow>
          if wa_parse_fails E then (JSON_error 400 ''failed to parse credential'', st)
          else (case wa_finish E of
                  None \<Rightarrow> (JSON_error 401 ''authentication failed'', st)
                | Some credential \<Rightarrow>
                    (let D1 = (case UpdateCredentialSignCount (db_fails E UpdateSignCount) (db st)
                                      (WA_ID credential) (Auth_SignCount (WA_Authenticator credential)) of
                                 Inl _ \<Rightarrow> db st
                               | Inr D \<Rightarrow> D)
                     in case generateJWT E user (EncryptedDEK user) of
                          Inl _ \<Rightarrow> (JSON_error 500 ''failed to generate token'', st\<lparr>db := D1\<rparr>)
                        | Inr token \<Rightarrow> (AuthResponse token (User_ID user) (Username user), st\<lparr>db := D1\<rparr>))))"

definition finishLogin :: "env \<Rightarrow> LoginFinishRequest option \<Rightarrow> state \<Rightarrow> response \<times> state" where
  "finishLogin E request st =
     (case request of
        None \<Rightarrow> (JSON_error 400 ''invalid request'', st)
      | Some req \<Rightarrow>
          (case SessionStore_Get (sessions st) (now E) (LF_SessionID req) of
             None \<Rightarrow> (JSON_error 400 ''session expired or invalid'', st)
           | Some sessionData \<Rightarrow>
               (let (resp, st') = finishLogin_found E req sessionData st
                in (resp, st'\<lparr>sessions := SessionStore_Delete (sessions st') (LF_SessionID req)\<rparr>))))"

subsection \<open>The helper that unwraps the data key\<close>

definition decryptDEK :: "primitives \<Rightarrow> string \<Rightarrow> User \<Rightarrow> err + bytes" where
  "decryptDEK P encryptedDEKB64 user =
     (case base64_DecodeString encryptedDEKB64 of
        None \<Rightarrow> Inl CorruptInputError
      | Some encryptedDEK \<Rightarrow>
          (let kek = DeriveKeyFromSecret P (string_bytes ''placeholder-secret'') (DEKSalt user)
           in DecryptDEK P encryptedDEK kek))"


subsection \<open>The Plaid handlers: syncTransactions\<close>

fun Error :: "err \<Rightarrow> string" where
  "Error (Failure msg) = msg"
| "Error KeyLengthError = ''invalid key length''"
| "Error IntegrityError = ''decryption failed''"
| "Error EntropyError = ''failed to read random bytes''"
| "Error CorruptInputError = ''illegal base64 data''"
| "Error ErrNotFound = ''not found''"

definition Service_SyncTransactions :: "env \<Rightarrow> string \<Rightarrow> string \<Rightarrow> err + SyncTransactionsResult" where
  "Service_SyncTransactions E accessToken cursor =
     (case plaid_TransactionsSync E accessToken (if cursor \<noteq> [] then Some cursor else None) of
        Inl msg \<Rightarrow> Inl (Failure (''failed to sync transactions: '' @ msg))
      | Inr result \<Rightarrow> Inr result)"

text \<open>
  What the middleware left in the request context (the user of the token and the wrapped
  data key of its claims) and the route parameter \<open>id\<close> as \<open>uuid.Parse\<close> reads it.
\<close>

record request_ctx =
  Ctx_UserID :: "uuid option"
  Ctx_EncryptedDEK :: "string option"
  Param_id :: "uuid option"

text \<open>
  \<open>processPlaidTransaction\<close> is called for the \<open>k\<close>-th added record. It builds the
  transaction and returns; the source stores nothing (its last lines are a TODO and
  \<open>_ = transaction\<close>), so the database comes back as it went in and only the error, if
  any, is returned. The accounts of an item hold each provider account at most once, so
  the order in which they are listed does not change which one is found.
\<close>

definition processPlaidTransaction ::
  "primitives \<Rightarrow> env \<Rightarrow> database \<Rightarrow> uuid \<Rightarrow> uuid \<Rightarrow> nat \<Rightarrow> PlaidTransaction \<Rightarrow> bytes \<Rightarrow> err option" where
  "processPlaidTransaction P E D userID plaidItemID k txn dek =
     (case GetAccountsByItemID (db_fails E (SelectPlaidAccounts k)) D plaidItemID of
        Inl e \<Rightarrow> Some e
      | Inr plaidAccounts \<Rightarrow>
          (case List.map_filter
                  (\<lambda>acc. if PlaidAccountID acc = PT_AccountId txn then AccountID acc else None)
                  plaidAccounts of
             [] \<Rightarrow> Some (Failure (''no linked account for plaid account '' @ PT_AccountId txn))
           | linkedAccountID # _ \<Rightarrow>
               (let txnData = \<lparr>Amount = PT_Amount txn, Description = PT_Name txn,
                               Merchant = PT_MerchantName txn, Date = PT_Date txn\<rparr>
                in case json_Marshal E txnData of
                     None \<Rightarrow> Some (Failure ''json: unsupported value'')
                   | Some txnDataJSON \<Rightarrow>
                       (case Encrypt P (txn_nonce E k) txnDataJSON dek of
                          Inl e \<Rightarrow> Some e
                        | Inr encryptedData \<Rightarrow>
                            (let txnDate = (case time_Parse E (PT_Date txn) of None \<Rightarrow> now E | Some d \<Rightarrow> d);
                                 transaction = \<lparr>Txn_ID = new_uuid E (Suc k), Txn_UserID = userID,
                                                 Txn_AccountID = linkedAccountID,
                                                 Txn_EncryptedData = encryptedData,
                                                 TransactionDate = txnDate, Txn_CreatedAt = now E\<rparr>
                             in None)))))"

fun process_added ::
  "primitives \<Rightarrow> env \<Rightarrow> database \<Rightarrow> uuid \<Rightarrow> uuid \<Rightarrow> bytes \<Rightarrow> nat \<Rightarrow> nat \<Rightarrow> PlaidTransaction list \<Rightarrow> nat" where
  "process_added P E D userID itemID dek addedCount k [] = addedCount"
| "process_added P E D userID itemID dek addedCount k (txn # rest) =
     process_added P E D userID itemID dek
       (if processPlaidTransaction P E D userID itemID k txn dek = None then addedCount + 1 else addedCount)
       (Suc k) rest"

definition syncTransactions_provider ::
  "primitives \<Rightarrow> env \<Rightarrow> state \<Rightarrow> uuid \<Rightarrow> uuid \<Rightarrow> PlaidItem \<Rightarrow> bytes \<Rightarrow> string \<Rightarrow> response \<times> state" where
  "syncTransactions_provider P E st userID itemID item dek accessToken =
     (case Service_SyncTransactions E accessToken (Cursor item) of
        Inl e \<Rightarrow>
          (let sync = \<lparr>Sync_ID = new_uuid E 0, Sync_PlaidItemID = itemID, Sync_UserID = userID,
                       AddedCount = 0, ModifiedCount = 0, RemovedCount = 0,
                       CursorBefore = Cursor item, CursorAfter = [], ErrorMessage = Error e,
                       SyncedAt = 0\<rparr>;
               D1 = (case CreateSync (db_fails E InsertSync) (now E) (db st) sync of
                       Inl _ \<Rightarrow> db st
                     | Inr D \<Rightarrow> D)
           in (JSON_error 500 (''failed to sync transactions: '' @ Error e), st\<lparr>db := D1\<rparr>))
      | Inr result \<Rightarrow>
          (let addedCount = process_added P E (db st) userID itemID dek 0 0 (Added result);
               modifiedCount = length (Modified result);
               removedCount = length (Removed result);
               D1 = (case UpdateItemCursor (db_fails E UpdateCursor) (db st) itemID (NextCursor result) of
                       Inl _ \<Rightarrow> db st
                     | Inr D \<Rightarrow> D);
               sync = \<lparr>Sync_ID = new_uuid E 0, Sync_PlaidItemID = itemID, Sync_UserID = userID,
                       AddedCount = addedCount, ModifiedCount = modifiedCount,
                       RemovedCount = removedCount,
                       CursorBefore = Cursor item, CursorAfter = NextCursor result, ErrorMessage = [],
                       SyncedAt = 0\<rparr>;
               D2 = (case CreateSync (db_fails E InsertSync) (now E) D1 sync of
                       Inl _ \<Rightarrow> D1
                     | Inr D \<Rightarrow> D)
           in (SyncTransactionsResponse addedCount modifiedCount removedCount (HasMore result),
               st\<lparr>db := D2\<rparr>)))"

text \<open>
  The checks of \<open>syncTransactions\<close> before it calls the provider: they end the request
  with an error response, or give the user, the item, the data key and the access token.
\<close>

definition syncTransactions_checks ::
  "server \<Rightarrow> primitives \<Rightarrow> env \<Rightarrow> request_ctx \<Rightarrow> state \<Rightarrow> response + (uuid \<times> uuid \<times> PlaidItem \<times> bytes \<times> string)" where
  "syncTransactions_checks S P E c st =
     (if \<not> plaid_configured S then Inl (JSON_error 503 ''Plaid integration is not configured'')
      else case Ctx_UserID c of
        None \<Rightarrow> Inl (JSON_error 401 ''unauthorized'')
      | Some userID \<Rightarrow>
      (case Ctx_EncryptedDEK c of
        None \<Rightarrow> Inl (JSON_error 401 ''missing encryption key'')
      | Some encryptedDEKB64 \<Rightarrow>
      (case Param_id c of
        None \<Rightarrow> Inl (JSON_error 400 ''invalid item ID'')
      | Some itemID \<Rightarrow>
      (case GetItemByID (db_fails E SelectItem) (db st) itemID of
        Inl _ \<Rightarrow> Inl (JSON_error 404 ''item not found'')
      | Inr item \<Rightarrow>
      if Item_UserID item \<noteq> userID then Inl (JSON_error 403 ''access denied'')
      else (case GetByID (db_fails E SelectUser) (db_fails E SelectCredentials) (db st) userID of
        Inl _ \<Rightarrow> Inl (JSON_error 500 ''failed to get user'')
      | Inr user \<Rightarrow>
      (case decryptDEK P encryptedDEKB64 user of
        Inl _ \<Rightarrow> Inl (JSON_error 500 ''failed to decrypt key'')
      | Inr dek \<Rightarrow>
      (case Decrypt P (EncryptedAccessToken item) dek of
        Inl _ \<Rightarrow> Inl (JSON_error 500 ''failed to decrypt access token'')
      | Inr accessToken \<Rightarrow> Inr (userID, itemID, item, dek, bytes_string accessToken))))))))"

definition syncTransactions ::
  "server \<Rightarrow> primitives \<Rightarrow> env \<Rightarrow> request_ctx \<Rightarrow> state \<Rightarrow> response \<times> state" where
  "syncTransactions S P E c st =
     (case syncTransactions_checks S P E c st of
        Inl resp \<Rightarrow> (resp, st)
      | Inr (userID, itemID, item, dek, accessToken) \<Rightarrow>
          syncTransactions_provider P E st userID itemID item dek accessToken)"


section \<open>The cipher behind Encrypt and Decrypt\<close>

text \<open>
  What is assumed of the authenticated cipher: under a key of 32 bytes and a nonce of the
  cipher's size, opening what was sealed gives the plaintext back, and sealing adds the
  tag to the length of the plaintext.
\<close>

definition aead_correct :: "primitives \<Rightarrow> bool" where
  "aead_correct P \<longleftrightarrow>
     (\<forall>key nonce plaintext.
        length key = 32 \<longrightarrow> length nonce = nonce_size P \<longrightarrow>
          aead_open P key nonce (aead_seal P key nonce plaintext) = Some plaintext \<and>
          length (aead_seal P key nonce plaintext) = length plaintext + tag_size P)"

text \<open>
  The other half of what authenticated encryption is for: what was sealed under one key
  of 32 bytes does not open under another.
\<close>

definition aead_rejects_other_keys :: "primitives \<Rightarrow> bool" where
  "aead_rejects_other_keys P \<longleftrightarrow>
     (\<forall>key key' nonce plaintext.
        length key = 32 \<longrightarrow> length key' = 32 \<longrightarrow> key' \<noteq> key \<longrightarrow>
          aead_open P key' nonce (aead_seal P key nonce plaintext) = None)"

text \<open>
  A stand-in for the primitives, to run the handlers on concrete inputs: the key
  derivation pads secret and salt to the key length, and the cipher masks each byte with
  the sum of the key and nonce bytes and appends the 32 bytes of the key as its tag.
  It is a cipher by the letter of \<open>aead_correct\<close> only, and opens nothing under
  another key of 32 bytes.
\<close>

definition toy_kdf :: "bytes \<Rightarrow> bytes \<Rightarrow> nat \<Rightarrow> nat \<Rightarrow> nat \<Rightarrow> nat \<Rightarrow> bytes" where
  "toy_kdf secret salt t m p keyLen = take keyLen (secret @ salt @ replicate keyLen 0)"

definition toy_mask :: "bytes \<Rightarrow> bytes \<Rightarrow> byte" where
  "toy_mask key nonce = foldr (XOR) (key @ nonce) 0"

definition toy_tag :: "bytes \<Rightarrow> bytes" where
  "toy_tag key = take 32 (key @ replicate 32 0)"

definition toy_seal :: "bytes \<Rightarrow> bytes \<Rightarrow> bytes \<Rightarrow> bytes" where
  "toy_seal key nonce plaintext = map (\<lambda>b. b XOR toy_mask key nonce) plaintext @ toy_tag key"

definition toy_open :: "bytes \<Rightarrow> bytes \<Rightarrow> bytes \<Rightarrow> bytes option" where
  "toy_open key nonce sealed =
     (if length sealed < 32 then None
      else if drop (length sealed - 32) sealed \<noteq> toy_tag key then None
      else Some (map (\<lambda>b. b XOR toy_mask key nonce) (take (length sealed - 32) sealed)))"

definition toy_primitives :: primitives where
  "toy_primitives =
     \<lparr>argon2_IDKey = toy_kdf, aead_seal = toy_seal, aead_open = toy_open, nonce_size = 12, tag_size = 32\<rparr>"

section \<open>Runs of the server\<close>

text \<open>
  The requests the server answers, and the events that change its state: a request, or
  a tick of the session store's cleanup. A handle is issued by the begin handlers only,
  as the fresh identifier they draw for the session.
\<close>

datatype call =
    BeginRegistrationCall env "RegisterBeginRequest option"
  | FinishRegistrationCall env "RegisterFinishRequest option"
  | BeginLoginCall env "LoginBeginRequest option"
  | FinishLoginCall env "LoginFinishRequest option"
  | SyncTransactionsCall env request_ctx

fun handle :: "server \<Rightarrow> primitives \<Rightarrow> call \<Rightarrow> state \<Rightarrow> response \<times> state" where
  "handle S P (BeginRegistrationCall E request) st = beginRegistration E request st"
| "handle S P (FinishRegistrationCall E request) st = finishRegistration P E request st"
| "handle S P (BeginLoginCall E request) st = beginLogin E request st"
| "handle S P (FinishLoginCall E request) st = finishLogin E request st"
| "handle S P (SyncTransactionsCall E c) st = syncTransactions S P E c st"

datatype event = Call call | CleanupTick time

fun step :: "server \<Rightarrow> primitives \<Rightarrow> state \<Rightarrow> event \<Rightarrow> state" where
  "step S P st (Call c) = snd (handle S P c st)"
| "step S P st (CleanupTick t) = st\<lparr>sessions := SessionStore_cleanup (sessions st) t\<rparr>"

definition run :: "server \<Rightarrow> primitives \<Rightarrow> state \<Rightarrow> event list \<Rightarrow> state" where
  "run S P st events = foldl (step S P) st events"

fun issues :: "event \<Rightarrow> string \<Rightarrow> bool" where
  "issues (Call (BeginRegistrationCall E request)) h = (new_uuid E 1 = h)"
| "issues (Call (BeginLoginCall E request)) h = (new_uuid E 0 = h)"
| "issues _ h = False"

fun finishes :: "call \<Rightarrow> string \<Rightarrow> bool" where
  "finishes (FinishRegistrationCall E (Some req)) h = (RF_SessionID req = h)"
| "finishes (FinishLoginCall E (Some req)) h = (LF_SessionID req = h)"
| "finishes _ h = False"

fun clock :: "call \<Rightarrow> time" where
  "clock (BeginRegistrationCall E request) = now E"
| "clock (FinishRegistrationCall E request) = now E"
| "clock (BeginLoginCall E request) = now E"
| "clock (FinishLoginCall E request) = now E"
| "clock (SyncTransactionsCall E c) = now E"

text \<open>
  Concrete values, to run the handlers on: an environment in which nothing fails and
  nothing is supplied; a registered user, alice, with one credential whose signature
  counter stands at 5, a linked provider item and a login ceremony under way; and a
  registration ceremony of a new user, bob, under way.
\<close>

definition idle_env :: env where
  "idle_env =
     \<lparr>now = 0, db_fails = (\<lambda>_. False), new_uuid = (\<lambda>_. []), wa_begin = None,
      wa_parse_fails = False, wa_finish = None, pool_dek = [], pool_salt = [], pool_secret = [],
      pool_nonce = [], pool_phrase = [], jwt_fails = False,
      plaid_TransactionsSync = (\<lambda>_ _. Inl ''provider unreachable''),
      txn_nonce = (\<lambda>_. []), json_Marshal = (\<lambda>_. None), time_Parse = (\<lambda>_. None)\<rparr>"

definition example_salt :: bytes where
  "example_salt = replicate 16 1"

definition example_dek :: bytes where
  "example_dek = replicate 32 7"

definition placeholder_kek :: bytes where
  "placeholder_kek = DeriveKeyFromSecret toy_primitives (string_bytes ''placeholder-secret'') example_salt"

definition alice_credential :: Credential where
  "alice_credential =
     \<lparr>Cred_ID = [1, 2, 3], Cred_UserID = ''user-1'', PublicKey = [4, 5, 6], AttestationType = ''none'',
      SignCount = 5, Cred_CreatedAt = 0\<rparr>"

definition alice :: User where
  "alice =
     \<lparr>User_ID = ''user-1'', Username = ''alice'',
      EncryptedDEK = replicate 12 0 @ aead_seal toy_primitives placeholder_kek (replicate 12 0) example_dek,
      DEKSalt = example_salt, RecoveryPhraseHash = [], User_CreatedAt = 0, User_UpdatedAt = 0,
      Credentials = []\<rparr>"

definition example_item :: PlaidItem where
  "example_item =
     \<lparr>Item_ID = ''item-1'', Item_UserID = ''user-1'', ItemID = ''provider-item-1'',
      EncryptedAccessToken =
        replicate 12 0 @ aead_seal toy_primitives example_dek (replicate 12 0) (string_bytes ''access-token''),
      Cursor = ''cursor-1''\<rparr>"

definition example_account :: PlaidAccount where
  "example_account =
     \<lparr>PA_ID = ''plaid-account-row-1'', PlaidItemID = ''item-1'', PA_UserID = ''user-1'',
      AccountID = Some ''account-1'', PlaidAccountID = ''provider-account-1'', PA_Name = ''Checking''\<rparr>"

definition example_db :: database where
  "example_db =
     \<lparr>users = [alice], credentials = [alice_credential],
      accounts = [\<lparr>Account_ID = ''account-1'', Account_UserID = ''user-1'', Account_EncryptedData = []\<rparr>],
      transactions = [], plaid_items = [example_item], plaid_accounts = [example_account],
      plaid_syncs = []\<rparr>"

definition example_state :: state where
  "example_state =
     \<lparr>sessions = NewSessionStore(''handle-1'' \<mapsto>
                   \<lparr>Session = ''challenge-1'', SD_Username = ''alice'', SD_UserID = ''user-1'',
                    ExpiresAt = 5 * minute\<rparr>,
                 ''handle-2'' \<mapsto>
                   \<lparr>Session = ''challenge-2'', SD_Username = ''bob'', SD_UserID = ''user-2'',
                    ExpiresAt = 5 * minute\<rparr>),
      db = example_db\<rparr>"

definition example_ctx :: request_ctx where
  "example_ctx =
     \<lparr>Ctx_UserID = Some ''user-1'',
      Ctx_EncryptedDEK = Some (base64_EncodeToString (EncryptedDEK alice)),
      Param_id = Some ''item-1''\<rparr>"

definition coffee :: PlaidTransaction where
  "coffee =
     \<lparr>PT_TransactionId = ''provider-txn-1'', PT_AccountId = ''provider-account-1'', PT_Amount = 4,
      PT_Name = ''Coffee'', PT_MerchantName = ''Cafe'', PT_Date = ''2024-01-15''\<rparr>"

definition sync_env :: env where
  "sync_env =
     idle_env\<lparr>now := minute,
              new_uuid := (\<lambda>k. if k = 0 then ''sync-1'' else ''txn-1''),
              plaid_TransactionsSync :=
                (\<lambda>accessToken cursor.
                   Inr \<lparr>Added = [coffee], Modified = [coffee\<lparr>PT_TransactionId := ''provider-txn-0''\<rparr>],
                        Removed = [''provider-txn-9''], NextCursor = ''cursor-2'', HasMore = False\<rparr>),
              txn_nonce := (\<lambda>_. replicate 12 0),
              json_Marshal := (\<lambda>_. Some (string_bytes ''{}''))\<rparr>"

text \<open>
  The environment of a login of alice in which the library has validated an assertion
  of her credential whose counter is 3, below the stored 5.
\<close>

definition replay_env :: env where
  "replay_env =
     idle_env\<lparr>now := minute,
              wa_finish := validated_credential (alice\<lparr>Credentials := [alice_credential]\<rparr>) [1, 2, 3] 3\<rparr>"

definition alice_login :: LoginFinishRequest where
  "alice_login = \<lparr>LF_SessionID = ''handle-1'', LF_Credential = ''{}'', LF_PRFOutput = []\<rparr>"

text \<open>
  The environments of bob's registration: at Begin the random source makes the phrase
  twelve times \<open>act\<close>, at Finish twelve times \<open>add\<close>; no PRF output is sent, so the
  key comes from the random hex secret. In the last environment the database refuses
  the insert of the credential.
\<close>

definition bob_begin_env :: env where
  "bob_begin_env =
     idle_env\<lparr>now := 0,
              new_uuid := (\<lambda>k. if k = 0 then ''user-2'' else ''handle-2''),
              wa_begin := Some (''options'', ''challenge-2''),
              pool_phrase := concat (replicate 8 [0, 19])\<rparr>"

definition bob_finish_env :: env where
  "bob_finish_env =
     idle_env\<lparr>now := minute,
              wa_finish := Some \<lparr>WA_ID = [7, 7, 7], WA_PublicKey = [8, 8, 8], WA_AttestationType = ''none'',
                                WA_Authenticator = \<lparr>Auth_SignCount = 0, CloneWarning = False\<rparr>\<rparr>,
              pool_dek := replicate 32 7,
              pool_salt := replicate 16 1,
              pool_secret := replicate 32 3,
              pool_nonce := replicate 12 0,
              pool_phrase := concat (replicate 8 [0, 25])\<rparr>"

definition bob_finish :: RegisterFinishRequest where
  "bob_finish = \<lparr>RF_SessionID = ''handle-2'', RF_Credential = ''{}'', RF_PRFOutput = []\<rparr>"

definition bob_begin :: RegisterBeginRequest where
  "bob_begin = \<lparr>RB_Username = ''bob''\<rparr>"

definition before_bob :: state where
  "before_bob =
     \<lparr>sessions = NewSessionStore(''handle-1'' \<mapsto>
                   \<lparr>Session = ''challenge-1'', SD_Username = ''alice'', SD_UserID = ''user-1'',
                    ExpiresAt = 5 * minute\<rparr>),
      db = example_db\<rparr>"

definition bob_kek :: bytes where
  "bob_kek =
     DeriveKeyFromSecret toy_primitives (string_bytes (hex_EncodeToString (replicate 32 3))) example_salt"

definition bob_wrapped_dek :: bytes where
  "bob_wrapped_dek = replicate 12 0 @ aead_seal toy_primitives bob_kek (replicate 12 0) example_dek"

definition credential_insert_fails_env :: env where
  "credential_insert_fails_env = bob_finish_env\<lparr>db_fails := (\<lambda>s. s = InsertCredential)\<rparr>"

text \<open>
  Two environments in which the provider cannot be reached; in the second the database
  refuses the insert into the sync history as well.
\<close>

definition outage_env :: env where
  "outage_env = sync_env\<lparr>plaid_TransactionsSync := (\<lambda>accessToken cursor. Inl ''connection refused'')\<rparr>"

definition outage_and_history_failure_env :: env where
  "outage_and_history_failure_env = outage_env\<lparr>db_fails := (\<lambda>s. s = InsertSync)\<rparr>"

text \<open>The environment in which the provider delivers other modified and removed sets.\<close>

definition deliver_instead :: "env \<Rightarrow> PlaidTransaction list \<Rightarrow> string list \<Rightarrow> env" where
  "deliver_instead E ms rs =
     E\<lparr>plaid_TransactionsSync :=
         (\<lambda>accessToken cursor.
            case plaid_TransactionsSync E accessToken cursor of
              Inl e \<Rightarrow> Inl e
            | Inr result \<Rightarrow> Inr (result\<lparr>Modified := ms, Removed := rs\<rparr>))\<rparr>"

definition example_server :: server where
  "example_server = \<lparr>plaid_configured = True\<rparr>"

section \<open>Facts about the library functions\<close>

subsection \<open>Base64 decoding undoes encoding\<close>

lemma index_of_nth: "distinct xs \<Longrightarrow> n < length xs \<Longrightarrow> index_of (xs ! n) xs = Some n"
proof (induction xs arbitrary: n)
  case Nil
  then show ?case by simp
next
  case (Cons y ys)
  show ?case
  proof (cases n)
    case 0
    then show ?thesis by simp
  next
    case (Suc m)
    with Cons.prems have "m < length ys" "distinct ys" "ys ! m \<noteq> y"
      by auto
    with Cons.IH [of m] Suc show ?thesis by simp
  qed
qed

lemma b64_alphabet_distinct: "distinct b64_alphabet"
  by (simp add: b64_alphabet_def)

lemma b64_alphabet_length: "length b64_alphabet = 64"
  by (simp add: b64_alphabet_def)

lemma b64_val_char: "n < 64 \<Longrightarrow> b64_val (b64_char n) = Some n"
  unfolding b64_val_def b64_char_def
  by (rule index_of_nth) (simp_all add: b64_alphabet_distinct b64_alphabet_length)

lemma b64_alphabet_plain: "c \<in> set b64_alphabet \<Longrightarrow> c \<noteq> CHR ''='' \<and> c \<noteq> CHR 0x0D \<and> c \<noteq> CHR 0x0A"
  by (auto simp add: b64_alphabet_def)

lemma b64_char_plain: "n < 64 \<Longrightarrow> b64_char n \<noteq> CHR ''='' \<and> b64_char n \<noteq> CHR 0x0D \<and> b64_char n \<noteq> CHR 0x0A"
  unfolding b64_char_def
  by (rule b64_alphabet_plain) (simp add: b64_alphabet_length)

lemma sextet_bounds:
  fixes a b c :: byte
  shows "unat a div 4 < 64 \<and> unat a mod 4 * 16 + unat b div 16 < 64 \<and>
    unat b mod 16 * 4 + unat c div 64 < 64 \<and> unat c mod 64 < 64 \<and>
    unat b mod 16 * 4 < 64 \<and> unat a mod 4 * 16 < 64"
proof -
  have "unat a < 256" "unat b < 256" "unat c < 256"
    using unsigned_less [of a] unsigned_less [of b] unsigned_less [of c] by simp_all
  then show ?thesis
    by arith
qed

lemma div_mult_add_small: "m < q \<Longrightarrow> (k * q + m) div q = (k::nat)"
  by simp

lemma mod_mult_add_small: "m < q \<Longrightarrow> (k * q + m) mod q = (m::nat)"
  by simp

lemma b64_bytes:
  fixes a b c :: byte
  shows b64_byte1: "word_of_nat (unat a div 4 * 4 + (unat a mod 4 * 16 + unat b div 16) div 16) = a"
    and b64_byte2: "word_of_nat ((unat a mod 4 * 16 + unat b div 16) mod 16 * 16 + (unat b mod 16 * 4 + unat c div 64) div 4) = b"
    and b64_byte3: "word_of_nat ((unat b mod 16 * 4 + unat c div 64) mod 4 * 64 + unat c mod 64) = c"
    and b64_byte1_pad: "word_of_nat (unat a div 4 * 4 + (unat a mod 4 * 16) div 16) = a"
    and b64_byte2_pad: "word_of_nat ((unat a mod 4 * 16 + unat b div 16) mod 16 * 16 + (unat b mod 16 * 4) div 4) = b"
proof -
  have "unat b < 256" "unat c < 256"
    using unsigned_less [of b] unsigned_less [of c] by simp_all
  then have b16: "unat b div 16 < 16" and c64: "unat c div 64 < 4"
    by arith+
  have "unat a div 4 * 4 + (unat a mod 4 * 16 + unat b div 16) div 16 = unat a"
    by (simp only: div_mult_add_small [OF b16]) simp
  then show "word_of_nat (unat a div 4 * 4 + (unat a mod 4 * 16 + unat b div 16) div 16) = a"
    by (metis of_nat_unat ucast_id)
  have "(unat a mod 4 * 16 + unat b div 16) mod 16 * 16 + (unat b mod 16 * 4 + unat c div 64) div 4 = unat b"
    by (simp only: mod_mult_add_small [OF b16] div_mult_add_small [OF c64]) simp
  then show "word_of_nat ((unat a mod 4 * 16 + unat b div 16) mod 16 * 16 + (unat b mod 16 * 4 + unat c div 64) div 4) = b"
    by (metis of_nat_unat ucast_id)
  have "(unat b mod 16 * 4 + unat c div 64) mod 4 * 64 + unat c mod 64 = unat c"
    by (simp only: mod_mult_add_small [OF c64]) simp
  then show "word_of_nat ((unat b mod 16 * 4 + unat c div 64) mod 4 * 64 + unat c mod 64) = c"
    by (metis of_nat_unat ucast_id)
  have "unat a div 4 * 4 + (unat a mod 4 * 16) div 16 = unat a"
    by simp
  then show "word_of_nat (unat a div 4 * 4 + (unat a mod 4 * 16) div 16) = a"
    by (metis of_nat_unat ucast_id)
  have "(unat a mod 4 * 16 + unat b div 16) mod 16 * 16 + (unat b mod 16 * 4) div 4 = unat b"
    by (simp only: mod_mult_add_small [OF b16]) simp
  then show "word_of_nat ((unat a mod 4 * 16 + unat b div 16) mod 16 * 16 + (unat b mod 16 * 4) div 4) = b"
    by (metis of_nat_unat ucast_id)
qed

lemma decode_quad:
  assumes "x0 < 64" "x1 < 64" "x2 < 64" "x3 < 64"
  shows "b64_decode_quads (b64_char x0 # b64_char x1 # b64_char x2 # b64_char x3 # rest) =
    map_option (\<lambda>r. [word_of_nat (x0 * 4 + x1 div 16), word_of_nat (x1 mod 16 * 16 + x2 div 4),
                      word_of_nat (x2 mod 4 * 64 + x3)] @ r) (b64_decode_quads rest)"
  using assms
  by (cases "b64_decode_quads rest") (simp_all add: b64_val_char b64_char_plain del: of_nat_add of_nat_mult)

lemma decode_quad_pad1:
  assumes "x0 < 64" "x1 < 64" "x2 < 64"
  shows "b64_decode_quads [b64_char x0, b64_char x1, b64_char x2, CHR ''=''] =
    Some [word_of_nat (x0 * 4 + x1 div 16), word_of_nat (x1 mod 16 * 16 + x2 div 4)]"
  using assms by (simp add: b64_val_char b64_char_plain del: of_nat_add of_nat_mult)

lemma decode_quad_pad2:
  assumes "x0 < 64" "x1 < 64"
  shows "b64_decode_quads [b64_char x0, b64_char x1, CHR ''='', CHR ''=''] =
    Some [word_of_nat (x0 * 4 + x1 div 16)]"
  using assms by (simp add: b64_val_char b64_char_plain del: of_nat_add of_nat_mult)

lemma b64_decode_quads_encode: "b64_decode_quads (base64_EncodeToString bs) = Some bs"
proof (induction bs rule: base64_EncodeToString.induct)
  case (1 a b c rest)
  have "b64_decode_quads (base64_EncodeToString (a # b # c # rest)) =
      map_option (\<lambda>r. [a, b, c] @ r) (b64_decode_quads (base64_EncodeToString rest))"
    using sextet_bounds [of a b c]
    by (simp only: base64_EncodeToString.simps append_Cons append_Nil decode_quad
        b64_byte1 b64_byte2 b64_byte3)
  then show ?case
    by (simp add: "1.IH")
next
  case (2 a b)
  show ?case
    using sextet_bounds [of a b 0]
    by (simp only: base64_EncodeToString.simps decode_quad_pad1 b64_byte1 b64_byte2_pad)
next
  case (3 a)
  show ?case
    using sextet_bounds [of a 0 0]
    by (simp only: base64_EncodeToString.simps decode_quad_pad2 b64_byte1_pad)
next
  case 4
  show ?case by simp
qed

lemma base64_EncodeToString_chars:
  "c \<in> set (base64_EncodeToString bs) \<Longrightarrow> c \<noteq> CHR 0x0D \<and> c \<noteq> CHR 0x0A"
proof (induction bs rule: base64_EncodeToString.induct)
  case (1 a b c' rest)
  then show ?case
    using sextet_bounds [of a b c'] by (auto simp add: b64_char_plain)
next
  case (2 a b)
  then show ?case
    using sextet_bounds [of a b 0] by (auto simp add: b64_char_plain)
next
  case (3 a)
  then show ?case
    using sextet_bounds [of a 0 0] by (auto simp add: b64_char_plain)
next
  case 4
  then show ?case by simp
qed

lemma base64_roundtrip: "base64_DecodeString (base64_EncodeToString bs) = Some bs"
proof -
  have "filter (\<lambda>c. c \<noteq> CHR 0x0D \<and> c \<noteq> CHR 0x0A) (base64_EncodeToString bs) = base64_EncodeToString bs"
    by (rule filter_True) (use base64_EncodeToString_chars in blast)
  then show ?thesis
    by (simp add: base64_DecodeString_def b64_decode_quads_encode)
qed

subsection \<open>SHA-256 digests, computed\<close>

lemma sha256_a_b:
  "sha256 (string_bytes ''a b'') =
     [200, 104, 122, 8, 170, 93, 110, 210, 4, 67, 40, 250, 106, 105, 122, 184,
      233, 109, 195, 66, 145, 232, 194, 3, 74, 232, 195, 142, 111, 204, 109, 101]"
  by code_simp

lemma sha256_a_b_wide:
  "sha256 (string_bytes ''a  b'') =
     [110, 18, 219, 115, 32, 154, 102, 209, 71, 166, 122, 21, 134, 139, 219, 75,
      138, 229, 123, 136, 77, 71, 49, 49, 11, 98, 248, 42, 125, 103, 97, 30]"
  by code_simp

lemma sha256_act_phrase:
  "sha256 (string_bytes ''act act act act act act act act act act act act'') =
     [17, 196, 66, 219, 73, 51, 63, 145, 131, 160, 78, 119, 112, 118, 153, 82,
      21, 10, 129, 160, 150, 163, 42, 182, 7, 230, 56, 180, 82, 118, 27, 75]"
  by code_simp

lemma sha256_add_phrase:
  "sha256 (string_bytes ''add add add add add add add add add add add add'') =
     [146, 220, 106, 23, 200, 162, 51, 88, 80, 57, 148, 170, 82, 190, 58, 2,
      209, 94, 120, 123, 99, 47, 205, 38, 103, 191, 166, 162, 243, 80, 115, 182]"
  by code_simp

subsection \<open>The stand-in cipher is correct\<close>

lemma toy_tag_length: "length (toy_tag key) = 32"
  by (simp add: toy_tag_def)

lemma toy_open_seal: "toy_open key nonce (toy_seal key nonce plaintext) = Some plaintext"
proof -
  have "map ((\<lambda>b. b XOR toy_mask key nonce) \<circ> (\<lambda>b. b XOR toy_mask key nonce)) plaintext = plaintext"
    by (simp add: comp_def xor.assoc)
  then show ?thesis
    by (simp add: toy_open_def toy_seal_def toy_tag_length)
qed

lemma toy_aead_correct: "aead_correct toy_primitives"
  by (simp add: aead_correct_def toy_primitives_def toy_open_seal)
    (simp add: toy_seal_def toy_tag_length)


section \<open>Envelope encryption\<close>

lemma Decrypt_Encrypt:
  assumes "aead_correct P" "length K = 32" "Encrypt P pool plaintext K = Inr c"
  shows "Decrypt P c K = Inr plaintext"
proof -
  from assms(2,3) obtain nonce where nonce: "ReadFull pool (nonce_size P) = Some nonce"
    and c: "c = nonce @ aead_seal P K nonce plaintext"
    by (auto simp add: Encrypt_def split: option.splits)
  from nonce have len: "length nonce = nonce_size P"
    by (auto simp add: ReadFull_def split: if_splits)
  from assms(1,2) len
  have "aead_open P K nonce (aead_seal P K nonce plaintext) = Some plaintext"
    and "length (aead_seal P K nonce plaintext) = length plaintext + tag_size P"
    by (simp_all add: aead_correct_def)
  with assms(2) len c show ?thesis
    by (simp add: Decrypt_def)
qed

text \<open>
  Claim C8. For every plaintext, the empty one included, and every key of exactly 32
  bytes, decrypting what Encrypt returned, under the same key, gives the plaintext back
  (Encrypt returns a ciphertext whenever the random source delivers the nonce); and
  Encrypt fails on every key whose length is not 32 bytes.
\<close>

theorem C8_Decrypt_Encrypt_roundtrip:
  assumes "aead_correct P"
  shows "(length K = 32 \<and> nonce_size P \<le> length pool \<longrightarrow>
           (\<exists>c. Encrypt P pool plaintext K = Inr c \<and> Decrypt P c K = Inr plaintext)) \<and>
         (length K \<noteq> 32 \<longrightarrow> Encrypt P pool plaintext K = Inl KeyLengthError)"
proof (intro conjI impI)
  assume k: "length K = 32 \<and> nonce_size P \<le> length pool"
  then obtain c where c: "Encrypt P pool plaintext K = Inr c"
    by (simp add: Encrypt_def ReadFull_def)
  with assms k have "Decrypt P c K = Inr plaintext"
    by (simp add: Decrypt_Encrypt)
  with c show "\<exists>c. Encrypt P pool plaintext K = Inr c \<and> Decrypt P c K = Inr plaintext"
    by blast
next
  assume "length K \<noteq> 32"
  then show "Encrypt P pool plaintext K = Inl KeyLengthError"
    by (simp add: Encrypt_def)
qed

theorem C8_Decrypt_Encrypt_roundtrip_witness:
  "aead_correct toy_primitives \<and>
   (\<exists>c. Encrypt toy_primitives (replicate 12 7) [] (replicate 32 0) = Inr c \<and>
        Decrypt toy_primitives c (replicate 32 0) = Inr []) \<and>
   (\<exists>c. Encrypt toy_primitives (replicate 12 7) (string_bytes ''Hello, World!'') (replicate 32 0) = Inr c \<and>
        Decrypt toy_primitives c (replicate 32 0) = Inr (string_bytes ''Hello, World!'')) \<and>
   Encrypt toy_primitives (replicate 12 7) (string_bytes ''test'') (replicate 16 0) = Inl KeyLengthError \<and>
   Encrypt toy_primitives (replicate 12 7) (string_bytes ''test'') (replicate 64 0) = Inl KeyLengthError"
proof -
  have n: "nonce_size toy_primitives = 12"
    by (simp add: toy_primitives_def)
  show ?thesis
    using C8_Decrypt_Encrypt_roundtrip [OF toy_aead_correct, of "replicate 32 0" "replicate 12 7" "[]"]
    C8_Decrypt_Encrypt_roundtrip [OF toy_aead_correct, of "replicate 32 0" "replicate 12 7" "string_bytes ''Hello, World!''"]
    C8_Decrypt_Encrypt_roundtrip [OF toy_aead_correct, of "replicate 16 0" "replicate 12 7" "string_bytes ''test''"]
    C8_Decrypt_Encrypt_roundtrip [OF toy_aead_correct, of "replicate 64 0" "replicate 12 7" "string_bytes ''test''"]
    by (simp add: toy_aead_correct n)
qed


section \<open>Ceremony sessions\<close>

lemma finishRegistration_found_sessions:
  "sessions (snd (finishRegistration_found P E req sd st)) = sessions st"
  by (simp add: finishRegistration_found_def Let_def split: option.split sum.split)

lemma finishLogin_found_sessions:
  "sessions (snd (finishLogin_found E req sd st)) = sessions st"
  by (simp add: finishLogin_found_def Let_def split: option.split sum.split)

lemma finishRegistration_sessions:
  "sessions (snd (finishRegistration P E request st)) =
     (case request of
        None \<Rightarrow> sessions st
      | Some req \<Rightarrow>
          (case SessionStore_Get (sessions st) (now E) (RF_SessionID req) of
             None \<Rightarrow> sessions st
           | Some _ \<Rightarrow> SessionStore_Delete (sessions st) (RF_SessionID req)))"
  using finishRegistration_found_sessions
  by (auto simp add: finishRegistration_def Let_def split: option.split prod.split)
    (metis snd_conv)

lemma finishLogin_sessions:
  "sessions (snd (finishLogin E request st)) =
     (case request of
        None \<Rightarrow> sessions st
      | Some req \<Rightarrow>
          (case SessionStore_Get (sessions st) (now E) (LF_SessionID req) of
             None \<Rightarrow> sessions st
           | Some _ \<Rightarrow> SessionStore_Delete (sessions st) (LF_SessionID req)))"
  using finishLogin_found_sessions
  by (auto simp add: finishLogin_def Let_def split: option.split prod.split)
    (metis snd_conv)


lemma beginRegistration_sessions:
  "new_uuid E 1 \<noteq> h \<Longrightarrow> sessions (snd (beginRegistration E request st)) h = sessions st h"
  by (auto simp add: beginRegistration_def SessionStore_Save_def Let_def
      split: option.splits sum.splits if_splits prod.splits)

lemma beginLogin_sessions:
  "new_uuid E 0 \<noteq> h \<Longrightarrow> sessions (snd (beginLogin E request st)) h = sessions st h"
  by (auto simp add: beginLogin_def SessionStore_Save_def Let_def
      split: option.splits sum.splits if_splits prod.splits)

lemma syncTransactions_provider_sessions:
  "sessions (snd (syncTransactions_provider P E st userID itemID item dek accessToken)) = sessions st"
  by (simp add: syncTransactions_provider_def Let_def split: sum.split)

lemma syncTransactions_sessions:
  "sessions (snd (syncTransactions S P E c st)) = sessions st"
  by (simp add: syncTransactions_def syncTransactions_provider_sessions split: sum.split prod.split)

lemma step_keeps_absent:
  assumes "sessions st h = None" "\<not> issues e h"
  shows "sessions (step S P st e) h = None"
proof (cases e)
  case (CleanupTick t)
  with assms show ?thesis
    by (simp add: SessionStore_cleanup_def)
next
  case (Call c)
  show ?thesis
  proof (cases c)
    case (BeginRegistrationCall E request)
    with Call assms show ?thesis
      by (simp add: beginRegistration_sessions)
  next
    case (FinishRegistrationCall E request)
    with Call assms show ?thesis
      by (simp add: finishRegistration_sessions SessionStore_Delete_def split: option.split)
  next
    case (BeginLoginCall E request)
    with Call assms show ?thesis
      by (simp add: beginLogin_sessions)
  next
    case (FinishLoginCall E request)
    with Call assms show ?thesis
      by (simp add: finishLogin_sessions SessionStore_Delete_def split: option.split)
  next
    case (SyncTransactionsCall E c')
    with Call assms show ?thesis
      by (simp add: syncTransactions_sessions)
  qed
qed

lemma run_keeps_absent:
  "sessions st h = None \<Longrightarrow> \<forall>e\<in>set events. \<not> issues e h \<Longrightarrow> sessions (run S P st events) h = None"
  unfolding run_def
proof (induction events arbitrary: st)
  case Nil
  then show ?case by simp
next
  case (Cons e events)
  then show ?case
    by (simp add: step_keeps_absent)
qed

lemma finish_not_found:
  assumes "finishes c h" "SessionStore_Get (sessions st) (clock c) h = None"
  shows "handle S P c st = (JSON_error 400 ''session expired or invalid'', st)"
  using assms
  by (cases "(c, h)" rule: finishes.cases)
    (simp_all add: finishRegistration_def finishLogin_def)

lemma finish_consumes:
  assumes "finishes c h" "SessionStore_Get (sessions st) (clock c) h \<noteq> None"
  shows "sessions (snd (handle S P c st)) h = None"
  using assms
  by (cases "(c, h)" rule: finishes.cases)
    (auto simp add: finishRegistration_sessions finishLogin_sessions SessionStore_Delete_def)

lemma Get_absent: "s h = None \<Longrightarrow> SessionStore_Get s t h = None"
  by (simp add: SessionStore_Get_def)

text \<open>
  Claim C6. A Finish call (of a registration or of a login) whose handle is unknown,
  expired or already consumed answers "session expired or invalid" and changes nothing.
  A Finish call that finds its session deletes it, whatever the call then answers; from
  there on, through any later requests and cleanup ticks that do not issue the same
  handle again, every Finish call with that handle answers "session expired or invalid".
\<close>

theorem C6_session_handle_single_use:
  "(finishes c h \<and> SessionStore_Get (sessions st) (clock c) h = None \<longrightarrow>
      handle S P c st = (JSON_error 400 ''session expired or invalid'', st)) \<and>
   (finishes c h \<and> SessionStore_Get (sessions st) (clock c) h \<noteq> None \<and>
    (\<forall>e\<in>set later. \<not> issues e h) \<and> finishes c' h \<longrightarrow>
      sessions (snd (handle S P c st)) h = None \<and>
      handle S P c' (run S P (snd (handle S P c st)) later) =
        (JSON_error 400 ''session expired or invalid'', run S P (snd (handle S P c st)) later))"
proof (intro conjI impI)
  assume "finishes c h \<and> SessionStore_Get (sessions st) (clock c) h = None"
  then show "handle S P c st = (JSON_error 400 ''session expired or invalid'', st)"
    using finish_not_found [of c h st S P] by blast
next
  assume a: "finishes c h \<and> SessionStore_Get (sessions st) (clock c) h \<noteq> None \<and>
    (\<forall>e\<in>set later. \<not> issues e h) \<and> finishes c' h"
  then show gone: "sessions (snd (handle S P c st)) h = None"
    using finish_consumes [of c h st S P] by blast
  with a have "sessions (run S P (snd (handle S P c st)) later) h = None"
    by (simp add: run_keeps_absent)
  then have "SessionStore_Get (sessions (run S P (snd (handle S P c st)) later)) (clock c') h = None"
    by (rule Get_absent)
  with a show "handle S P c' (run S P (snd (handle S P c st)) later) =
        (JSON_error 400 ''session expired or invalid'', run S P (snd (handle S P c st)) later)"
    using finish_not_found [of c' h "run S P (snd (handle S P c st)) later" S P] by blast
qed

theorem C6_session_handle_single_use_witness:
  "fst (handle example_server toy_primitives
         (FinishLoginCall (idle_env\<lparr>now := minute\<rparr>)
            (Some \<lparr>LF_SessionID = ''handle-0'', LF_Credential = ''{}'', LF_PRFOutput = []\<rparr>))
         example_state) = JSON_error 400 ''session expired or invalid'' \<and>
   fst (handle example_server toy_primitives
         (FinishLoginCall (idle_env\<lparr>now := 6 * minute\<rparr>)
            (Some \<lparr>LF_SessionID = ''handle-1'', LF_Credential = ''{}'', LF_PRFOutput = []\<rparr>))
         example_state) = JSON_error 400 ''session expired or invalid'' \<and>
   fst (handle example_server toy_primitives
         (FinishLoginCall (idle_env\<lparr>now := minute, wa_parse_fails := True\<rparr>)
            (Some \<lparr>LF_SessionID = ''handle-1'', LF_Credential = ''{}'', LF_PRFOutput = []\<rparr>))
         example_state) = JSON_error 400 ''failed to parse credential'' \<and>
   sessions (snd (handle example_server toy_primitives
         (FinishLoginCall (idle_env\<lparr>now := minute, wa_parse_fails := True\<rparr>)
            (Some \<lparr>LF_SessionID = ''handle-1'', LF_Credential = ''{}'', LF_PRFOutput = []\<rparr>))
         example_state)) ''handle-1'' = None \<and>
   fst (handle example_server toy_primitives
         (FinishRegistrationCall (idle_env\<lparr>now := 2 * minute\<rparr>)
            (Some \<lparr>RF_SessionID = ''handle-1'', RF_Credential = ''{}'', RF_PRFOutput = []\<rparr>))
         (run example_server toy_primitives
            (snd (handle example_server toy_primitives
               (FinishLoginCall (idle_env\<lparr>now := minute, wa_parse_fails := True\<rparr>)
                  (Some \<lparr>LF_SessionID = ''handle-1'', LF_Credential = ''{}'', LF_PRFOutput = []\<rparr>))
               example_state))
            [CleanupTick (2 * minute),
             Call (BeginLoginCall (idle_env\<lparr>now := 2 * minute, new_uuid := (\<lambda>_. ''handle-2''),
                                            wa_begin := Some (''options'', ''challenge-2'')\<rparr>)
                     (Some \<lparr>LB_Username = ''alice''\<rparr>))])) =
     JSON_error 400 ''session expired or invalid''"
proof -
  let ?cu = "FinishLoginCall (idle_env\<lparr>now := minute\<rparr>)
            (Some \<lparr>LF_SessionID = ''handle-0'', LF_Credential = ''{}'', LF_PRFOutput = []\<rparr>)"
  let ?cx = "FinishLoginCall (idle_env\<lparr>now := 6 * minute\<rparr>)
            (Some \<lparr>LF_SessionID = ''handle-1'', LF_Credential = ''{}'', LF_PRFOutput = []\<rparr>)"
  let ?c = "FinishLoginCall (idle_env\<lparr>now := minute, wa_parse_fails := True\<rparr>)
            (Some \<lparr>LF_SessionID = ''handle-1'', LF_Credential = ''{}'', LF_PRFOutput = []\<rparr>)"
  let ?c' = "FinishRegistrationCall (idle_env\<lparr>now := 2 * minute\<rparr>)
            (Some \<lparr>RF_SessionID = ''handle-1'', RF_Credential = ''{}'', RF_PRFOutput = []\<rparr>)"
  let ?later = "[CleanupTick (2 * minute),
             Call (BeginLoginCall (idle_env\<lparr>now := 2 * minute, new_uuid := (\<lambda>_. ''handle-2''),
                                            wa_begin := Some (''options'', ''challenge-2'')\<rparr>)
                     (Some \<lparr>LB_Username = ''alice''\<rparr>))]"
  have unknown: "finishes ?cu ''handle-0'' \<and>
      SessionStore_Get (sessions example_state) (clock ?cu) ''handle-0'' = None"
    by (simp add: example_state_def SessionStore_Get_def NewSessionStore_def)
  have expired: "finishes ?cx ''handle-1'' \<and>
      SessionStore_Get (sessions example_state) (clock ?cx) ''handle-1'' = None"
    by (simp add: example_state_def SessionStore_Get_def NewSessionStore_def idle_env_def minute_def)
  have found: "finishes ?c ''handle-1'' \<and>
      SessionStore_Get (sessions example_state) (clock ?c) ''handle-1'' \<noteq> None \<and>
      (\<forall>e\<in>set ?later. \<not> issues e ''handle-1'') \<and> finishes ?c' ''handle-1''"
    by (simp add: example_state_def SessionStore_Get_def NewSessionStore_def idle_env_def minute_def)
  have answer: "fst (handle example_server toy_primitives ?c example_state) =
      JSON_error 400 ''failed to parse credential''"
    by (simp add: finishLogin_def finishLogin_found_def example_state_def SessionStore_Get_def
        NewSessionStore_def idle_env_def minute_def GetByUsername_def load_user_def
        GetCredentialsByUserID_def example_db_def alice_def)
  show ?thesis
    using C6_session_handle_single_use [of ?cu "''handle-0''" example_state example_server toy_primitives "[]" ?cu]
      C6_session_handle_single_use [of ?cx "''handle-1''" example_state example_server toy_primitives "[]" ?cx]
      C6_session_handle_single_use [of ?c "''handle-1''" example_state example_server toy_primitives ?later ?c']
      unknown expired found answer
    by simp
qed

section \<open>Synchronisation with the provider\<close>

lemma syncTransactions_checks_error:
  "syncTransactions_checks S P E c st = Inl resp \<Longrightarrow> \<exists>status msg. resp = JSON_error status msg"
  by (auto simp add: syncTransactions_checks_def split: option.splits sum.splits if_splits)

lemma syncTransactions_provider_frame:
  "users (db (snd (syncTransactions_provider P E st userID itemID item dek accessToken))) = users (db st) \<and>
   credentials (db (snd (syncTransactions_provider P E st userID itemID item dek accessToken))) = credentials (db st) \<and>
   accounts (db (snd (syncTransactions_provider P E st userID itemID item dek accessToken))) = accounts (db st) \<and>
   transactions (db (snd (syncTransactions_provider P E st userID itemID item dek accessToken))) = transactions (db st) \<and>
   plaid_accounts (db (snd (syncTransactions_provider P E st userID itemID item dek accessToken))) = plaid_accounts (db st)"
  by (simp add: syncTransactions_provider_def Let_def CreateSync_def UpdateItemCursor_def split: sum.split)

lemma syncTransactions_frame:
  "users (db (snd (syncTransactions S P E c st))) = users (db st) \<and>
   credentials (db (snd (syncTransactions S P E c st))) = credentials (db st) \<and>
   accounts (db (snd (syncTransactions S P E c st))) = accounts (db st) \<and>
   transactions (db (snd (syncTransactions S P E c st))) = transactions (db st) \<and>
   plaid_accounts (db (snd (syncTransactions S P E c st))) = plaid_accounts (db st)"
  by (simp add: syncTransactions_def syncTransactions_provider_frame split: sum.split prod.split)

lemma syncTransactions_success:
  assumes "syncTransactions S P E c st = (SyncTransactionsResponse a m r h, st')"
  obtains userID itemID item dek accessToken result where
    "syncTransactions_checks S P E c st = Inr (userID, itemID, item, dek, accessToken)"
    "Service_SyncTransactions E accessToken (Cursor item) = Inr result"
    "syncTransactions_provider P E st userID itemID item dek accessToken = (SyncTransactionsResponse a m r h, st')"
    "a = process_added P E (db st) userID itemID dek 0 0 (Added result)"
    "m = length (Modified result)" "r = length (Removed result)" "h = HasMore result"
proof (cases "syncTransactions_checks S P E c st")
  case (Inl resp)
  with assms syncTransactions_checks_error [OF Inl] show ?thesis
    by (auto simp add: syncTransactions_def)
next
  case (Inr t)
  obtain userID itemID item dek accessToken where t: "t = (userID, itemID, item, dek, accessToken)"
    by (cases t) auto
  with assms Inr
  have prov: "syncTransactions_provider P E st userID itemID item dek accessToken = (SyncTransactionsResponse a m r h, st')"
    by (simp add: syncTransactions_def)
  show ?thesis
  proof (cases "Service_SyncTransactions E accessToken (Cursor item)")
    case (Inl e)
    with prov show ?thesis
      by (simp add: syncTransactions_provider_def Let_def)
  next
    case (Inr result)
    with prov have "a = process_added P E (db st) userID itemID dek 0 0 (Added result)"
      "m = length (Modified result)" "r = length (Removed result)" "h = HasMore result"
      by (simp_all add: syncTransactions_provider_def Let_def)
    with that \<open>syncTransactions_checks S P E c st = Inr t\<close> t Inr prov show ?thesis
      by blast
  qed
qed

lemma processPlaidTransaction_deliver_instead:
  "processPlaidTransaction P (deliver_instead E ms rs) D userID itemID k txn dek =
   processPlaidTransaction P E D userID itemID k txn dek"
  by (simp add: processPlaidTransaction_def deliver_instead_def Let_def
      cong: sum.case_cong option.case_cong list.case_cong)

lemma process_added_deliver_instead:
  "process_added P (deliver_instead E ms rs) D userID itemID dek n k txns =
   process_added P E D userID itemID dek n k txns"
  by (induction txns arbitrary: n k) (simp_all add: processPlaidTransaction_deliver_instead)

lemma syncTransactions_checks_deliver_instead:
  "syncTransactions_checks S P (deliver_instead E ms rs) c st = syncTransactions_checks S P E c st"
  by (simp add: syncTransactions_checks_def deliver_instead_def
      cong: sum.case_cong option.case_cong if_cong)

lemma Service_SyncTransactions_deliver_instead:
  "Service_SyncTransactions E accessToken cursor = Inr result \<Longrightarrow>
   Service_SyncTransactions (deliver_instead E ms rs) accessToken cursor =
     Inr (result\<lparr>Modified := ms, Removed := rs\<rparr>)"
  by (cases "cursor = []")
    (auto simp add: Service_SyncTransactions_def deliver_instead_def split: sum.splits)

lemma syncTransactions_provider_deliver_instead:
  assumes "Service_SyncTransactions E accessToken (Cursor item) = Inr result"
    "length ms = length (Modified result)" "length rs = length (Removed result)"
  shows "syncTransactions_provider P (deliver_instead E ms rs) st userID itemID item dek accessToken =
    syncTransactions_provider P E st userID itemID item dek accessToken"
proof -
  have fields: "db_fails (deliver_instead E ms rs) = db_fails E" "now (deliver_instead E ms rs) = now E"
    "new_uuid (deliver_instead E ms rs) = new_uuid E"
    by (simp_all add: deliver_instead_def)
  show ?thesis
    using assms
    by (simp add: syncTransactions_provider_def Service_SyncTransactions_deliver_instead [OF assms(1)]
        process_added_deliver_instead fields)
qed

text \<open>
  Claim C10. In every sync call that succeeds, the modified and removed sets of the
  provider are applied to nothing: no transaction, account or provider-account record
  changes, the ModifiedCount and RemovedCount of the response are the lengths of the two
  sets as delivered, and had the provider delivered any other modified and removed sets
  of these lengths, the response and the state after the call would be the same.
\<close>

theorem C10_modified_and_removed_only_counted:
  assumes "syncTransactions S P E c st = (SyncTransactionsResponse a m r h, st')"
  shows "transactions (db st') = transactions (db st) \<and>
         accounts (db st') = accounts (db st) \<and>
         plaid_accounts (db st') = plaid_accounts (db st) \<and>
         (\<exists>userID itemID item dek accessToken result.
            syncTransactions_checks S P E c st = Inr (userID, itemID, item, dek, accessToken) \<and>
            Service_SyncTransactions E accessToken (Cursor item) = Inr result \<and>
            m = length (Modified result) \<and> r = length (Removed result)) \<and>
         (length ms = m \<and> length rs = r \<longrightarrow>
            syncTransactions S P (deliver_instead E ms rs) c st = (SyncTransactionsResponse a m r h, st'))"
proof -
  from assms obtain userID itemID item dek accessToken result where
    checks: "syncTransactions_checks S P E c st = Inr (userID, itemID, item, dek, accessToken)"
    and provider: "Service_SyncTransactions E accessToken (Cursor item) = Inr result"
    and run: "syncTransactions_provider P E st userID itemID item dek accessToken = (SyncTransactionsResponse a m r h, st')"
    and counts: "m = length (Modified result)" "r = length (Removed result)"
    by (rule syncTransactions_success)
  have frame: "transactions (db st') = transactions (db st) \<and> accounts (db st') = accounts (db st) \<and>
      plaid_accounts (db st') = plaid_accounts (db st)"
    using syncTransactions_frame [of S P E c st] assms by simp
  have same: "syncTransactions S P (deliver_instead E ms rs) c st = (SyncTransactionsResponse a m r h, st')"
    if "length ms = m \<and> length rs = r"
    using that checks provider run counts
    by (simp add: syncTransactions_def syncTransactions_checks_deliver_instead
        syncTransactions_provider_deliver_instead)
  from frame checks provider counts same show ?thesis
    by blast
qed


subsection \<open>A run on the example\<close>

lemma unat_of_char_byte: "unat (of_char c :: byte) = of_char c"
proof -
  have "(of_char c :: byte) = of_nat (of_char c)"
    by (simp add: of_char_def)
  moreover have "(of_char c :: nat) < 256"
    by simp
  ultimately show ?thesis
    by (simp add: unat_of_nat take_bit_nat_eq_self)
qed

lemma bytes_string_string_bytes: "bytes_string (string_bytes s) = s"
  by (induction s) (simp_all add: bytes_string_def string_bytes_def unat_of_char_byte)

lemma Decrypt_sealed:
  assumes "aead_correct P" "length key = 32" "length nonce = nonce_size P"
  shows "Decrypt P (nonce @ aead_seal P key nonce plaintext) key = Inr plaintext"
proof -
  from assms
  have "aead_open P key nonce (aead_seal P key nonce plaintext) = Some plaintext"
    and "length (aead_seal P key nonce plaintext) = length plaintext + tag_size P"
    by (simp_all add: aead_correct_def)
  with assms show ?thesis
    by (simp add: Decrypt_def)
qed

lemma placeholder_kek_length: "length placeholder_kek = 32"
  by (simp add: placeholder_kek_def DeriveKeyFromSecret_def toy_primitives_def toy_kdf_def
      argonKeyLen_def example_salt_def string_bytes_def)

lemma toy_nonce_size: "nonce_size toy_primitives = 12"
  by (simp add: toy_primitives_def)

lemma example_decryptDEK:
  "decryptDEK toy_primitives (base64_EncodeToString (EncryptedDEK alice)) (alice\<lparr>Credentials := cs\<rparr>) = Inr example_dek"
proof -
  have "Decrypt toy_primitives
      (replicate 12 0 @ aead_seal toy_primitives placeholder_kek (replicate 12 0) example_dek)
      placeholder_kek = Inr example_dek"
    by (rule Decrypt_sealed) (simp_all add: toy_aead_correct placeholder_kek_length toy_nonce_size)
  then show ?thesis
    by (simp add: decryptDEK_def base64_roundtrip DecryptDEK_def alice_def placeholder_kek_def)
qed

lemma example_access_token:
  "Decrypt toy_primitives (EncryptedAccessToken example_item) example_dek = Inr (string_bytes ''access-token'')"
  unfolding example_item_def PlaidItem.simps
  by (rule Decrypt_sealed) (simp_all add: toy_aead_correct toy_nonce_size example_dek_def)

lemma example_checks:
  assumes "\<not> db_fails E SelectItem" "\<not> db_fails E SelectUser" "\<not> db_fails E SelectCredentials"
  shows "syncTransactions_checks example_server toy_primitives E example_ctx example_state =
    Inr (''user-1'', ''item-1'', example_item, example_dek, ''access-token'')"
proof -
  have item: "GetItemByID False example_db ''item-1'' = Inr example_item"
    by (simp add: GetItemByID_def example_db_def example_item_def)
  have user: "GetByID False False example_db ''user-1'' = Inr (alice\<lparr>Credentials := [alice_credential]\<rparr>)"
    by (simp add: GetByID_def load_user_def GetCredentialsByUserID_def example_db_def alice_def
        alice_credential_def)
  have owner: "Item_UserID example_item = ''user-1''"
    by (simp add: example_item_def)
  show ?thesis
    using assms
    by (simp add: syncTransactions_checks_def example_server_def example_ctx_def example_state_def
        item user owner example_decryptDEK example_access_token bytes_string_string_bytes)
qed


lemma example_processPlaidTransaction:
  "processPlaidTransaction toy_primitives sync_env example_db ''user-1'' ''item-1'' 0 coffee example_dek = None"
proof -
  have "Encrypt toy_primitives (replicate 12 0) (string_bytes ''{}'') example_dek \<noteq> Inl e" for e
    by (simp add: Encrypt_def example_dek_def ReadFull_def toy_nonce_size)
  then show ?thesis
    by (simp add: processPlaidTransaction_def sync_env_def idle_env_def GetAccountsByItemID_def
        example_db_def example_account_def coffee_def Let_def
        split: sum.split)
qed

lemma sync_env_fields:
  "db_fails sync_env = (\<lambda>_. False)" "now sync_env = minute" "new_uuid sync_env 0 = ''sync-1''"
  "Service_SyncTransactions sync_env accessToken ''cursor-1'' =
     Inr \<lparr>Added = [coffee], Modified = [coffee\<lparr>PT_TransactionId := ''provider-txn-0''\<rparr>],
          Removed = [''provider-txn-9''], NextCursor = ''cursor-2'', HasMore = False\<rparr>"
  by (simp_all add: sync_env_def idle_env_def Service_SyncTransactions_def)

text \<open>
  Claim C3, at a batch of one added record whose account is linked: the call succeeds
  and reports one added record, the cursor of the item moves on to the next cursor and
  the history records one added transaction, and no transaction has been written; the
  table of transactions is as empty after the call as before it.
\<close>

theorem C3_added_record_counted_but_not_stored:
  "fst (syncTransactions example_server toy_primitives sync_env example_ctx example_state) =
     SyncTransactionsResponse 1 1 1 False \<and>
   transactions (db example_state) = [] \<and>
   transactions (db (snd (syncTransactions example_server toy_primitives sync_env example_ctx example_state))) = [] \<and>
   map Cursor (plaid_items (db (snd (syncTransactions example_server toy_primitives sync_env example_ctx example_state)))) =
     [''cursor-2''] \<and>
   map AddedCount (plaid_syncs (db (snd (syncTransactions example_server toy_primitives sync_env example_ctx example_state)))) =
     [1]"
proof -
  have checks: "syncTransactions_checks example_server toy_primitives sync_env example_ctx example_state =
      Inr (''user-1'', ''item-1'', example_item, example_dek, ''access-token'')"
    by (rule example_checks) (simp_all add: sync_env_fields)
  have cursor: "Cursor example_item = ''cursor-1''" and item_id: "Item_ID example_item = ''item-1''"
    by (simp_all add: example_item_def)
  have db: "db example_state = example_db"
    by (simp add: example_state_def)
  have tables: "transactions example_db = []" "plaid_items example_db = [example_item]"
    "plaid_syncs example_db = []"
    by (simp_all add: example_db_def)
  show ?thesis
    by (simp add: syncTransactions_def checks syncTransactions_provider_def cursor sync_env_fields
        example_processPlaidTransaction db tables UpdateItemCursor_def CreateSync_def item_id Let_def)
qed

lemma example_sync_answer:
  "fst (syncTransactions example_server toy_primitives sync_env example_ctx example_state) =
     SyncTransactionsResponse 1 1 1 False"
proof -
  have checks: "syncTransactions_checks example_server toy_primitives sync_env example_ctx example_state =
      Inr (''user-1'', ''item-1'', example_item, example_dek, ''access-token'')"
    by (rule example_checks) (simp_all add: sync_env_fields)
  have cursor: "Cursor example_item = ''cursor-1''"
    by (simp add: example_item_def)
  have db: "db example_state = example_db"
    by (simp add: example_state_def)
  show ?thesis
    by (simp add: syncTransactions_def checks syncTransactions_provider_def cursor sync_env_fields
        example_processPlaidTransaction db Let_def)
qed

theorem C10_modified_and_removed_only_counted_witness:
  "fst (syncTransactions example_server toy_primitives sync_env example_ctx example_state) =
     SyncTransactionsResponse 1 1 1 False \<and>
   transactions (db (snd (syncTransactions example_server toy_primitives sync_env example_ctx example_state))) =
     transactions (db example_state) \<and>
   accounts (db (snd (syncTransactions example_server toy_primitives sync_env example_ctx example_state))) =
     accounts (db example_state) \<and>
   syncTransactions example_server toy_primitives
     (deliver_instead sync_env [coffee] [''provider-txn-7'']) example_ctx example_state =
   syncTransactions example_server toy_primitives sync_env example_ctx example_state"
proof -
  have run: "syncTransactions example_server toy_primitives sync_env example_ctx example_state =
      (SyncTransactionsResponse 1 1 1 False,
       snd (syncTransactions example_server toy_primitives sync_env example_ctx example_state))"
    using example_sync_answer by (simp add: prod_eq_iff)
  show ?thesis
    using C10_modified_and_removed_only_counted [OF run, of "[coffee]" "[''provider-txn-7'']"]
      example_sync_answer
    by (simp add: prod_eq_iff)
qed

lemma syncTransactions_provider_outage:
  assumes "Service_SyncTransactions E accessToken (Cursor item) = Inl e"
  shows "syncTransactions_provider P E st userID itemID item dek accessToken =
    (JSON_error 500 (''failed to sync transactions: '' @ Error e),
     st\<lparr>db := (if db_fails E InsertSync then db st
                else (db st)\<lparr>plaid_syncs := plaid_syncs (db st) @
                  [\<lparr>Sync_ID = new_uuid E 0, Sync_PlaidItemID = itemID, Sync_UserID = userID,
                    AddedCount = 0, ModifiedCount = 0, RemovedCount = 0,
                    CursorBefore = Cursor item, CursorAfter = [], ErrorMessage = Error e,
                    SyncedAt = now E\<rparr>]\<rparr>)\<rparr>)"
  using assms by (simp add: syncTransactions_provider_def CreateSync_def Let_def)

text \<open>
  Claim C7, as the code has it. When the call to the provider fails, the sync call
  answers with a transport error (status 500, the provider's error in the message), the
  items and their cursors, the transactions and the accounts are as before, and one
  record carrying the error and the prior cursor is appended to the sync history unless
  the database refuses that insert: the handler ignores the insert's failure, and the
  history is then as before too.
\<close>

theorem C7_provider_failure_keeps_cursor_and_records_error:
  assumes "syncTransactions_checks S P E c st = Inr (userID, itemID, item, dek, accessToken)"
    and "Service_SyncTransactions E accessToken (Cursor item) = Inl e"
  shows "fst (syncTransactions S P E c st) = JSON_error 500 (''failed to sync transactions: '' @ Error e) \<and>
         plaid_items (db (snd (syncTransactions S P E c st))) = plaid_items (db st) \<and>
         transactions (db (snd (syncTransactions S P E c st))) = transactions (db st) \<and>
         accounts (db (snd (syncTransactions S P E c st))) = accounts (db st) \<and>
         plaid_syncs (db (snd (syncTransactions S P E c st))) =
           (if db_fails E InsertSync then plaid_syncs (db st)
            else plaid_syncs (db st) @
              [\<lparr>Sync_ID = new_uuid E 0, Sync_PlaidItemID = itemID, Sync_UserID = userID,
                AddedCount = 0, ModifiedCount = 0, RemovedCount = 0,
                CursorBefore = Cursor item, CursorAfter = [], ErrorMessage = Error e,
                SyncedAt = now E\<rparr>])"
  using assms
  by (simp add: syncTransactions_def syncTransactions_provider_outage)

lemma outage_env_fields:
  "db_fails outage_env = (\<lambda>_. False)" "now outage_env = minute" "new_uuid outage_env 0 = ''sync-1''"
  "Service_SyncTransactions outage_env accessToken cursor =
     Inl (Failure ''failed to sync transactions: connection refused'')"
  by (simp_all add: outage_env_def sync_env_def idle_env_def Service_SyncTransactions_def)

lemma outage_and_history_failure_env_fields:
  "db_fails outage_and_history_failure_env = (\<lambda>s. s = InsertSync)"
  "Service_SyncTransactions outage_and_history_failure_env accessToken cursor =
     Inl (Failure ''failed to sync transactions: connection refused'')"
  by (simp_all add: outage_and_history_failure_env_def outage_env_def sync_env_def idle_env_def
      Service_SyncTransactions_def)

theorem C7_provider_failure_keeps_cursor_and_records_error_witness:
  "fst (syncTransactions example_server toy_primitives outage_env example_ctx example_state) =
     JSON_error 500 ''failed to sync transactions: failed to sync transactions: connection refused'' \<and>
   plaid_items (db (snd (syncTransactions example_server toy_primitives outage_env example_ctx example_state))) =
     plaid_items (db example_state) \<and>
   transactions (db (snd (syncTransactions example_server toy_primitives outage_env example_ctx example_state))) =
     transactions (db example_state) \<and>
   plaid_syncs (db (snd (syncTransactions example_server toy_primitives outage_env example_ctx example_state))) =
     [\<lparr>Sync_ID = ''sync-1'', Sync_PlaidItemID = ''item-1'', Sync_UserID = ''user-1'',
       AddedCount = 0, ModifiedCount = 0, RemovedCount = 0,
       CursorBefore = ''cursor-1'', CursorAfter = [],
       ErrorMessage = ''failed to sync transactions: connection refused'', SyncedAt = minute\<rparr>]"
proof -
  have checks: "syncTransactions_checks example_server toy_primitives outage_env example_ctx example_state =
      Inr (''user-1'', ''item-1'', example_item, example_dek, ''access-token'')"
    by (rule example_checks) (simp_all add: outage_env_fields)
  have syncs: "plaid_syncs (db example_state) = []"
    by (simp add: example_state_def example_db_def)
  have cursor: "Cursor example_item = ''cursor-1''"
    by (simp add: example_item_def)
  show ?thesis
    using C7_provider_failure_keeps_cursor_and_records_error [OF checks outage_env_fields(4)]
    by (simp add: outage_env_fields syncs cursor)
qed

text \<open>
  The claim as stated has the history record appended in every call in which the
  provider fails. In the run below the provider fails and the insert into the history
  fails as well: the call answers with the transport error and the history stays empty.
\<close>

theorem C7_history_insert_failure_counterexample:
  "fst (syncTransactions example_server toy_primitives outage_and_history_failure_env example_ctx example_state) =
     JSON_error 500 ''failed to sync transactions: failed to sync transactions: connection refused'' \<and>
   plaid_syncs (db example_state) = [] \<and>
   plaid_syncs (db (snd (syncTransactions example_server toy_primitives outage_and_history_failure_env
                          example_ctx example_state))) = []"
proof -
  have checks: "syncTransactions_checks example_server toy_primitives outage_and_history_failure_env
      example_ctx example_state =
      Inr (''user-1'', ''item-1'', example_item, example_dek, ''access-token'')"
    by (rule example_checks) (simp_all add: outage_and_history_failure_env_fields)
  have syncs: "plaid_syncs (db example_state) = []"
    by (simp add: example_state_def example_db_def)
  show ?thesis
    by (simp add: syncTransactions_def checks syncTransactions_provider_outage
        outage_and_history_failure_env_fields syncs)
qed

section \<open>Login and the signature counter\<close>

lemma finishLogin_validated:
  assumes "SessionStore_Get (sessions st) (now E) (LF_SessionID req) = Some sd"
    and "GetByUsername (db_fails E SelectUser) (db_fails E SelectCredentials) (db st) (SD_Username sd) = Inr user"
    and "\<not> wa_parse_fails E"
    and "wa_finish E = Some credential"
  shows "finishLogin E (Some req) st =
    (case generateJWT E user (EncryptedDEK user) of
       Inl _ \<Rightarrow> JSON_error 500 ''failed to generate token''
     | Inr token \<Rightarrow> AuthResponse token (User_ID user) (Username user),
     st\<lparr>db := (case UpdateCredentialSignCount (db_fails E UpdateSignCount) (db st) (WA_ID credential)
                      (Auth_SignCount (WA_Authenticator credential)) of
                 Inl _ \<Rightarrow> db st
               | Inr D \<Rightarrow> D),
        sessions := SessionStore_Delete (sessions st) (LF_SessionID req)\<rparr>)"
  using assms
  by (simp add: finishLogin_def finishLogin_found_def Let_def split: sum.split)

text \<open>
  Claim C2, as the code has it. \<open>finishLogin\<close> compares no counters. Whenever it finds
  the session and the user and the library has validated the device response, the login
  succeeds and the token carrying the user's stored wrapped data key is issued, whatever
  the counter of the response was against the stored one; the count that the library
  reports back is written to the credential (unless that update fails, which is
  ignored). In the theorem the credential returned by the library is written with the
  library's counter update on it, for any stored authenticator and any counter.
\<close>

theorem C2_login_succeeds_whatever_the_counter:
  assumes "SessionStore_Get (sessions st) (now E) (LF_SessionID req) = Some sd"
    and "GetByUsername (db_fails E SelectUser) (db_fails E SelectCredentials) (db st) (SD_Username sd) = Inr user"
    and "\<not> wa_parse_fails E"
    and "wa_finish E = Some (credential\<lparr>WA_Authenticator := UpdateCounter stored authDataCount\<rparr>)"
    and "\<not> jwt_fails E"
  shows "fst (finishLogin E (Some req) st) =
           AuthResponse
             \<lparr>Claims_UserID = User_ID user,
              Claims_EncryptedDEK = base64_EncodeToString (EncryptedDEK user),
              Claims_ExpiresAt = now E + 24 * 60 * minute, Claims_IssuedAt = now E,
              Claims_Issuer = ''ownu''\<rparr>
             (User_ID user) (Username user) \<and>
         credentials (db (snd (finishLogin E (Some req) st))) =
           (if db_fails E UpdateSignCount then credentials (db st)
            else map (\<lambda>c. if Cred_ID c = WA_ID credential
                           then c\<lparr>SignCount := Auth_SignCount (UpdateCounter stored authDataCount)\<rparr>
                           else c)
                     (credentials (db st)))"
  using assms
  by (simp add: finishLogin_validated [OF assms(1-4)] generateJWT_def UpdateCredentialSignCount_def)

lemma example_session: "SessionStore_Get (sessions example_state) minute ''handle-1'' =
    Some \<lparr>Session = ''challenge-1'', SD_Username = ''alice'', SD_UserID = ''user-1'', ExpiresAt = 5 * minute\<rparr>"
  by (simp add: SessionStore_Get_def example_state_def NewSessionStore_def minute_def)

lemma example_user: "GetByUsername False False (db example_state) ''alice'' =
    Inr (alice\<lparr>Credentials := [alice_credential]\<rparr>)"
  by (simp add: GetByUsername_def load_user_def GetCredentialsByUserID_def example_state_def
      example_db_def alice_def alice_credential_def)

lemma replay_env_fields:
  "now replay_env = minute" "db_fails replay_env = (\<lambda>_. False)" "\<not> wa_parse_fails replay_env"
  "\<not> jwt_fails replay_env"
  "wa_finish replay_env =
     Some (\<lparr>WA_ID = [1, 2, 3], WA_PublicKey = [4, 5, 6], WA_AttestationType = ''none'',
            WA_Authenticator = \<lparr>Auth_SignCount = 5, CloneWarning = False\<rparr>\<rparr>
           \<lparr>WA_Authenticator := UpdateCounter \<lparr>Auth_SignCount = 5, CloneWarning = False\<rparr> 3\<rparr>)"
  by (simp_all add: replay_env_def idle_env_def validated_credential_def WebAuthnCredentials_def
      alice_def alice_credential_def)

lemma replayed_counter: "UpdateCounter \<lparr>Auth_SignCount = 5, CloneWarning = False\<rparr> 3 =
    \<lparr>Auth_SignCount = 5, CloneWarning = True\<rparr>"
  by (simp add: UpdateCounter_def)

theorem C2_login_succeeds_whatever_the_counter_witness:
  "fst (finishLogin replay_env (Some alice_login) example_state) =
     AuthResponse
       \<lparr>Claims_UserID = ''user-1'',
        Claims_EncryptedDEK = base64_EncodeToString (EncryptedDEK alice),
        Claims_ExpiresAt = minute + 24 * 60 * minute, Claims_IssuedAt = minute,
        Claims_Issuer = ''ownu''\<rparr>
       ''user-1'' ''alice'' \<and>
   map SignCount (credentials (db (snd (finishLogin replay_env (Some alice_login) example_state)))) = [5]"
proof -
  have s: "SessionStore_Get (sessions example_state) (now replay_env) (LF_SessionID alice_login) =
      Some \<lparr>Session = ''challenge-1'', SD_Username = ''alice'', SD_UserID = ''user-1'', ExpiresAt = 5 * minute\<rparr>"
    by (simp add: replay_env_fields alice_login_def example_session)
  have u: "GetByUsername (db_fails replay_env SelectUser) (db_fails replay_env SelectCredentials)
      (db example_state)
      (SD_Username \<lparr>Session = ''challenge-1'', SD_Username = ''alice'', SD_UserID = ''user-1'', ExpiresAt = 5 * minute\<rparr>) =
      Inr (alice\<lparr>Credentials := [alice_credential]\<rparr>)"
    by (simp add: replay_env_fields example_user)
  have creds: "credentials (db example_state) = [alice_credential]"
    by (simp add: example_state_def example_db_def)
  show ?thesis
    using C2_login_succeeds_whatever_the_counter [OF s u replay_env_fields(3) replay_env_fields(5) replay_env_fields(4)]
    by (simp add: replay_env_fields replayed_counter creds alice_def alice_credential_def)
qed

text \<open>
  The claim as stated has such a login fail. Here alice's credential has the stored
  counter 5 and the validated assertion reports 3: the library raises the clone warning
  and keeps the count, and \<open>finishLogin\<close> answers with the token.
\<close>

theorem C2_replayed_counter_counterexample:
  "wa_finish replay_env =
     Some \<lparr>WA_ID = [1, 2, 3], WA_PublicKey = [4, 5, 6], WA_AttestationType = ''none'',
           WA_Authenticator = \<lparr>Auth_SignCount = 5, CloneWarning = True\<rparr>\<rparr> \<and>
   fst (finishLogin replay_env (Some alice_login) example_state) =
     AuthResponse
       \<lparr>Claims_UserID = ''user-1'',
        Claims_EncryptedDEK = base64_EncodeToString (EncryptedDEK alice),
        Claims_ExpiresAt = minute + 24 * 60 * minute, Claims_IssuedAt = minute,
        Claims_Issuer = ''ownu''\<rparr>
       ''user-1'' ''alice''"
proof -
  have s: "SessionStore_Get (sessions example_state) (now replay_env) (LF_SessionID alice_login) =
      Some \<lparr>Session = ''challenge-1'', SD_Username = ''alice'', SD_UserID = ''user-1'', ExpiresAt = 5 * minute\<rparr>"
    by (simp add: replay_env_fields alice_login_def example_session)
  have u: "GetByUsername (db_fails replay_env SelectUser) (db_fails replay_env SelectCredentials)
      (db example_state)
      (SD_Username \<lparr>Session = ''challenge-1'', SD_Username = ''alice'', SD_UserID = ''user-1'', ExpiresAt = 5 * minute\<rparr>) =
      Inr (alice\<lparr>Credentials := [alice_credential]\<rparr>)"
    by (simp add: replay_env_fields example_user)
  show ?thesis
    by (simp add: finishLogin_validated [OF s u replay_env_fields(3) replay_env_fields(5)]
        replay_env_fields replayed_counter generateJWT_def alice_def)
qed

section \<open>Registration\<close>

lemma registration_kek_error:
  "registration_kek P E req salt = Inl resp \<Longrightarrow> resp = JSON_error 400 ''invalid PRF output''"
  by (auto simp add: registration_kek_def Let_def split: if_splits option.splits)

lemma finishRegistration_found_credential_failure:
  assumes "finishRegistration_found P E req sd st = (JSON_error 500 ''failed to save credential'', st')"
  shows "\<exists>dek salt kek encryptedDEK.
           GenerateDEK (pool_dek E) = Inr dek \<and> GenerateSalt (pool_salt E) = Inr salt \<and>
           registration_kek P E req salt = Inr kek \<and>
           EncryptDEK P (pool_nonce E) dek kek = Inr encryptedDEK \<and>
           \<not> db_fails E InsertUser \<and> db_fails E InsertCredential \<and>
           st' = st\<lparr>db := (db st)\<lparr>users := users (db st) @ [new_user E sd encryptedDEK salt]\<rparr>\<rparr>"
proof -
  have "new_user E sd c s\<lparr>Credentials := []\<rparr> = new_user E sd c s" for c s
    by (simp add: new_user_def Let_def)
  with assms show ?thesis
    by (auto simp add: finishRegistration_found_def UserRepository_Create_def CreateCredential_def
        generateJWT_def Let_def
        split: if_splits option.splits sum.splits dest: registration_kek_error)
qed


lemma finishRegistration_found_response:
  "finishRegistration P E (Some req) st = (resp, st') \<Longrightarrow> resp \<noteq> JSON_error 400 ''session expired or invalid'' \<Longrightarrow>
   \<exists>sd st''. SessionStore_Get (sessions st) (now E) (RF_SessionID req) = Some sd \<and>
     finishRegistration_found P E req sd st = (resp, st'') \<and>
     st' = st''\<lparr>sessions := SessionStore_Delete (sessions st'') (RF_SessionID req)\<rparr>"
  by (auto simp add: finishRegistration_def Let_def split: option.splits prod.splits)

text \<open>
  Claim C4, as the code has it. \<open>finishRegistration\<close> inserts the user and then the
  credential, as two statements with nothing to undo the first. When it answers that
  the credential could not be saved, the insert of the credential has failed, the user
  record created in the same call is in storage, under the username of the ceremony,
  the credentials are as before, and the session is consumed.
\<close>

theorem C4_user_stays_when_credential_insert_fails:
  assumes "finishRegistration P E (Some req) st = (JSON_error 500 ''failed to save credential'', st')"
  shows "\<exists>sd encryptedDEK salt.
           SessionStore_Get (sessions st) (now E) (RF_SessionID req) = Some sd \<and>
           db_fails E InsertCredential \<and>
           users (db st') = users (db st) @ [new_user E sd encryptedDEK salt] \<and>
           Username (new_user E sd encryptedDEK salt) = SD_Username sd \<and>
           credentials (db st') = credentials (db st) \<and>
           sessions st' (RF_SessionID req) = None"
proof -
  from finishRegistration_found_response [OF assms]
  obtain sd st'' where sd: "SessionStore_Get (sessions st) (now E) (RF_SessionID req) = Some sd"
    and found: "finishRegistration_found P E req sd st = (JSON_error 500 ''failed to save credential'', st'')"
    and st': "st' = st''\<lparr>sessions := SessionStore_Delete (sessions st'') (RF_SessionID req)\<rparr>"
    by auto
  from finishRegistration_found_credential_failure [OF found]
  obtain encryptedDEK salt where "db_fails E InsertCredential"
    and "st'' = st\<lparr>db := (db st)\<lparr>users := users (db st) @ [new_user E sd encryptedDEK salt]\<rparr>\<rparr>"
    by auto
  with sd st' show ?thesis
    by (auto simp add: SessionStore_Delete_def new_user_def Let_def)
qed

lemma toy_kdf_length: "length (DeriveKeyFromSecret toy_primitives secret salt) = 32"
  by (simp add: DeriveKeyFromSecret_def toy_primitives_def toy_kdf_def argonKeyLen_def)

lemma bob_session: "SessionStore_Get (sessions example_state) minute ''handle-2'' =
    Some \<lparr>Session = ''challenge-2'', SD_Username = ''bob'', SD_UserID = ''user-2'', ExpiresAt = 5 * minute\<rparr>"
  by (simp add: SessionStore_Get_def example_state_def NewSessionStore_def minute_def)

lemma bob_keys:
  "GenerateDEK (replicate 32 7) = Inr example_dek" "GenerateSalt (replicate 16 1) = Inr example_salt"
  "pool_secret E = replicate 32 3 \<Longrightarrow> registration_kek toy_primitives E bob_finish example_salt = Inr bob_kek"
  "EncryptDEK toy_primitives (replicate 12 0) example_dek bob_kek = Inr bob_wrapped_dek"
  by (simp_all add: GenerateDEK_def GenerateSalt_def ReadFull_def example_dek_def example_salt_def
      registration_kek_def bob_finish_def GenerateRandomHex_def EncryptDEK_def Encrypt_def
      toy_kdf_length toy_nonce_size bob_kek_def bob_wrapped_dek_def)

lemma bob_registration:
  assumes "\<not> f InsertUser"
  shows "finishRegistration toy_primitives (bob_finish_env\<lparr>db_fails := f\<rparr>) (Some bob_finish) example_state =
    (if f InsertCredential then
       (JSON_error 500 ''failed to save credential'',
        example_state\<lparr>db := example_db\<lparr>users := [alice,
            new_user bob_finish_env
              \<lparr>Session = ''challenge-2'', SD_Username = ''bob'', SD_UserID = ''user-2'', ExpiresAt = 5 * minute\<rparr>
              bob_wrapped_dek example_salt]\<rparr>,
          sessions := SessionStore_Delete (sessions example_state) ''handle-2''\<rparr>)
     else
       (AuthResponse
          \<lparr>Claims_UserID = ''user-2'', Claims_EncryptedDEK = base64_EncodeToString bob_wrapped_dek,
           Claims_ExpiresAt = minute + 24 * 60 * minute, Claims_IssuedAt = minute, Claims_Issuer = ''ownu''\<rparr>
          ''user-2'' ''bob'',
        example_state\<lparr>db := example_db\<lparr>users := [alice,
            new_user bob_finish_env
              \<lparr>Session = ''challenge-2'', SD_Username = ''bob'', SD_UserID = ''user-2'', ExpiresAt = 5 * minute\<rparr>
              bob_wrapped_dek example_salt],
            credentials := [alice_credential,
              \<lparr>Cred_ID = [7, 7, 7], Cred_UserID = ''user-2'', PublicKey = [8, 8, 8], AttestationType = ''none'',
               SignCount = 0, Cred_CreatedAt = minute\<rparr>]\<rparr>,
          sessions := SessionStore_Delete (sessions example_state) ''handle-2''\<rparr>))"
proof -
  let ?E = "bob_finish_env\<lparr>db_fails := f\<rparr>"
  have fields: "now ?E = minute" "\<not> wa_parse_fails ?E" "\<not> jwt_fails ?E" "db_fails ?E = f"
    "wa_finish ?E = Some \<lparr>WA_ID = [7, 7, 7], WA_PublicKey = [8, 8, 8], WA_AttestationType = ''none'',
                                WA_Authenticator = \<lparr>Auth_SignCount = 0, CloneWarning = False\<rparr>\<rparr>"
    "pool_dek ?E = replicate 32 7" "pool_salt ?E = replicate 16 1" "pool_secret ?E = replicate 32 3"
    "pool_nonce ?E = replicate 12 0"
    by (simp_all add: bob_finish_env_def idle_env_def)
  have user: "new_user ?E sd c s = new_user bob_finish_env sd c s" for sd c s
    by (simp add: new_user_def bob_finish_env_def idle_env_def)
  have plain: "new_user bob_finish_env sd c s\<lparr>Credentials := []\<rparr> = new_user bob_finish_env sd c s" for sd c s
    by (simp add: new_user_def Let_def)
  have ids: "User_ID (new_user bob_finish_env sd c s) = SD_UserID sd"
    "Username (new_user bob_finish_env sd c s) = SD_Username sd" for sd c s
    by (simp_all add: new_user_def Let_def)
  have tables: "db example_state = example_db" "users example_db = [alice]"
    "credentials example_db = [alice_credential]"
    by (simp_all add: example_state_def example_db_def)
  have sid: "RF_SessionID bob_finish = ''handle-2''"
    by (simp add: bob_finish_def)
  show ?thesis
    using assms
    by (simp add: finishRegistration_def finishRegistration_found_def sid fields bob_session
        bob_keys user plain ids tables UserRepository_Create_def
        CreateCredential_def new_credential_def generateJWT_def Let_def)
qed


lemma credential_insert_fails_env_alt:
  "credential_insert_fails_env = bob_finish_env\<lparr>db_fails := (\<lambda>s. s = InsertCredential)\<rparr>"
  by (simp add: credential_insert_fails_env_def)

lemma bob_finish_env_alt: "bob_finish_env = bob_finish_env\<lparr>db_fails := (\<lambda>_. False)\<rparr>"
  by (simp add: bob_finish_env_def idle_env_def)

lemma bob_username_taken:
  assumes "users D = [alice, u]" "Username u = ''bob''"
  shows "fst (beginRegistration bob_begin_env (Some bob_begin) \<lparr>sessions = s, db = D\<rparr>) =
    JSON_error 409 ''username already exists''"
  using assms
  by (simp add: beginRegistration_def bob_begin_def bob_begin_env_def idle_env_def GetByUsername_def
      load_user_def GetCredentialsByUserID_def alice_def)

theorem C4_user_stays_when_credential_insert_fails_witness:
  "fst (finishRegistration toy_primitives credential_insert_fails_env (Some bob_finish) example_state) =
     JSON_error 500 ''failed to save credential'' \<and>
   map Username (users (db (snd (finishRegistration toy_primitives credential_insert_fails_env
                                   (Some bob_finish) example_state)))) = [''alice'', ''bob''] \<and>
   credentials (db (snd (finishRegistration toy_primitives credential_insert_fails_env
                           (Some bob_finish) example_state))) = [alice_credential] \<and>
   sessions (snd (finishRegistration toy_primitives credential_insert_fails_env
                    (Some bob_finish) example_state)) ''handle-2'' = None"
proof -
  have run: "finishRegistration toy_primitives credential_insert_fails_env (Some bob_finish) example_state =
      (JSON_error 500 ''failed to save credential'',
       snd (finishRegistration toy_primitives credential_insert_fails_env (Some bob_finish) example_state))"
    by (simp add: credential_insert_fails_env_alt bob_registration)
  have names: "Username (new_user bob_finish_env
      \<lparr>Session = ''challenge-2'', SD_Username = ''bob'', SD_UserID = ''user-2'', ExpiresAt = 5 * minute\<rparr>
      bob_wrapped_dek example_salt) = ''bob''"
    by (simp add: new_user_def Let_def)
  show ?thesis
    using C4_user_stays_when_credential_insert_fails [OF run]
    by (simp add: credential_insert_fails_env_alt bob_registration names alice_def example_db_def
        SessionStore_Delete_def)
qed

text \<open>
  The claim as stated has no user left without a credential. In the run below the
  insert of bob's credential fails: bob's user record is stored, no credential belongs
  to it, and his username is taken for a new registration.
\<close>

theorem C4_credential_less_user_counterexample:
  "fst (finishRegistration toy_primitives credential_insert_fails_env (Some bob_finish) example_state) =
     JSON_error 500 ''failed to save credential'' \<and>
   map Username (users (db (snd (finishRegistration toy_primitives credential_insert_fails_env
                                   (Some bob_finish) example_state)))) = [''alice'', ''bob''] \<and>
   map Cred_UserID (credentials (db (snd (finishRegistration toy_primitives credential_insert_fails_env
                                   (Some bob_finish) example_state)))) = [''user-1''] \<and>
   fst (beginRegistration bob_begin_env (Some bob_begin)
         (snd (finishRegistration toy_primitives credential_insert_fails_env (Some bob_finish) example_state))) =
     JSON_error 409 ''username already exists''"
proof -
  have names: "Username (new_user bob_finish_env
      \<lparr>Session = ''challenge-2'', SD_Username = ''bob'', SD_UserID = ''user-2'', ExpiresAt = 5 * minute\<rparr>
      bob_wrapped_dek example_salt) = ''bob''"
    by (simp add: new_user_def Let_def)
  have taken: "fst (beginRegistration bob_begin_env (Some bob_begin)
      (example_state\<lparr>db := example_db\<lparr>users := [alice, u]\<rparr>, sessions := s\<rparr>)) =
    JSON_error 409 ''username already exists''" if "Username u = ''bob''" for u s
    using bob_username_taken [of "example_db\<lparr>users := [alice, u]\<rparr>" u s] that
    by (simp add: example_state_def)
  have run: "finishRegistration toy_primitives credential_insert_fails_env (Some bob_finish) example_state =
      (JSON_error 500 ''failed to save credential'',
        example_state\<lparr>db := example_db\<lparr>users := [alice,
            new_user bob_finish_env
              \<lparr>Session = ''challenge-2'', SD_Username = ''bob'', SD_UserID = ''user-2'', ExpiresAt = 5 * minute\<rparr>
              bob_wrapped_dek example_salt]\<rparr>,
          sessions := SessionStore_Delete (sessions example_state) ''handle-2''\<rparr>)"
    by (simp add: credential_insert_fails_env_alt bob_registration)
  have "map Username (users (db (snd (finishRegistration toy_primitives credential_insert_fails_env
      (Some bob_finish) example_state)))) = [''alice'', ''bob'']"
    by (simp add: run names alice_def)
  moreover have "map Cred_UserID (credentials (db (snd (finishRegistration toy_primitives
      credential_insert_fails_env (Some bob_finish) example_state)))) = [''user-1'']"
    by (simp add: run example_db_def alice_credential_def)
  moreover have "fst (beginRegistration bob_begin_env (Some bob_begin)
      (snd (finishRegistration toy_primitives credential_insert_fails_env (Some bob_finish) example_state))) =
      JSON_error 409 ''username already exists''"
    by (simp add: run taken names)
  ultimately show ?thesis
    by (simp add: run)
qed

subsection \<open>A registration that succeeds\<close>

lemma generateJWT_claims:
  "generateJWT E user encryptedDEK = Inr token \<Longrightarrow>
   Claims_UserID token = User_ID user \<and> Claims_EncryptedDEK token = base64_EncodeToString encryptedDEK"
  by (auto simp add: generateJWT_def split: if_splits)

lemma finishRegistration_found_success:
  assumes "finishRegistration_found P E req sd st = (AuthResponse token uid uname, st')"
  shows "\<exists>credential dek salt kek encryptedDEK.
           wa_finish E = Some credential \<and>
           GenerateDEK (pool_dek E) = Inr dek \<and> GenerateSalt (pool_salt E) = Inr salt \<and>
           registration_kek P E req salt = Inr kek \<and>
           EncryptDEK P (pool_nonce E) dek kek = Inr encryptedDEK \<and>
           Claims_EncryptedDEK token = base64_EncodeToString encryptedDEK \<and>
           uid = SD_UserID sd \<and> uname = SD_Username sd \<and>
           st' = st\<lparr>db := (db st)\<lparr>users := users (db st) @ [new_user E sd encryptedDEK salt],
                                  credentials := credentials (db st) @
                                    [new_credential E (new_user E sd encryptedDEK salt) credential]\<rparr>\<rparr>"
proof -
  have plain: "new_user E sd c s\<lparr>Credentials := []\<rparr> = new_user E sd c s" for c s
    by (simp add: new_user_def Let_def)
  have ids: "User_ID (new_user E sd c s) = SD_UserID sd" "Username (new_user E sd c s) = SD_Username sd" for c s
    by (simp_all add: new_user_def Let_def)
  from assms show ?thesis
    by (auto simp add: finishRegistration_found_def UserRepository_Create_def CreateCredential_def
        Let_def plain ids
        split: if_splits option.splits sum.splits
        dest: registration_kek_error generateJWT_claims)
qed

lemma finishRegistration_success:
  assumes "finishRegistration P E (Some req) st = (AuthResponse token uid uname, st')"
  obtains sd credential dek salt kek encryptedDEK where
    "SessionStore_Get (sessions st) (now E) (RF_SessionID req) = Some sd"
    "wa_finish E = Some credential"
    "GenerateDEK (pool_dek E) = Inr dek" "GenerateSalt (pool_salt E) = Inr salt"
    "registration_kek P E req salt = Inr kek"
    "EncryptDEK P (pool_nonce E) dek kek = Inr encryptedDEK"
    "Claims_EncryptedDEK token = base64_EncodeToString encryptedDEK"
    "uid = SD_UserID sd" "uname = SD_Username sd"
    "users (db st') = users (db st) @ [new_user E sd encryptedDEK salt]"
    "credentials (db st') = credentials (db st) @ [new_credential E (new_user E sd encryptedDEK salt) credential]"
proof -
  from finishRegistration_found_response [OF assms]
  obtain sd st'' where sd: "SessionStore_Get (sessions st) (now E) (RF_SessionID req) = Some sd"
    and found: "finishRegistration_found P E req sd st = (AuthResponse token uid uname, st'')"
    and st': "st' = st''\<lparr>sessions := SessionStore_Delete (sessions st'') (RF_SessionID req)\<rparr>"
    by auto
  from finishRegistration_found_success [OF found] sd st' that show ?thesis
    by force
qed

text \<open>
  Claim C5, as the code has it. The claim wants the stored hash to be the hash of the
  phrase that \<open>beginRegistration\<close> returned. \<open>finishRegistration\<close> has no access to
  that phrase (the session holds the challenge, the username, the user id and the expiry
  only) and, as its own comment says, generates a new one: when a registration
  succeeds, the user record appended to storage carries the hash of the phrase drawn at
  Finish from the random source of that call (of the empty phrase, should the source
  fail, for the error is dropped).
\<close>

theorem C5_stored_hash_is_of_a_phrase_generated_at_finish:
  assumes "finishRegistration P E (Some req) st = (AuthResponse token uid uname, st')"
  shows "\<exists>user. users (db st') = users (db st) @ [user] \<and> User_ID user = uid \<and>
           RecoveryPhraseHash user =
             HashRecoveryPhrase (case GenerateRecoveryPhrase (pool_phrase E) of Inl _ \<Rightarrow> [] | Inr p \<Rightarrow> p)"
proof -
  from assms obtain sd salt encryptedDEK where "uid = SD_UserID sd"
    and "users (db st') = users (db st) @ [new_user E sd encryptedDEK salt]"
    by (rule finishRegistration_success)
  then show ?thesis
    by (simp add: new_user_def Let_def)
qed

text \<open>
  Bob's ceremony: Begin hands out twelve times \<open>act\<close> and stores the session that
  Finish then finds; Finish succeeds and stores the hash of twelve times \<open>add\<close>, against
  which the phrase bob was given does not verify.
\<close>

lemma bob_phrases:
  "GenerateRecoveryPhrase (concat (replicate 8 [0, 19])) =
     Inr ''act act act act act act act act act act act act''"
  "GenerateRecoveryPhrase (concat (replicate 8 [0, 25])) =
     Inr ''add add add add add add add add add add add add''"
  by code_simp+

lemma bob_hashes:
  "HashRecoveryPhrase ''act act act act act act act act act act act act'' =
     [17, 196, 66, 219, 73, 51, 63, 145, 131, 160, 78, 119, 112, 118, 153, 82,
      21, 10, 129, 160, 150, 163, 42, 182, 7, 230, 56, 180, 82, 118, 27, 75]"
  "HashRecoveryPhrase ''add add add add add add add add add add add add'' =
     [146, 220, 106, 23, 200, 162, 51, 88, 80, 57, 148, 170, 82, 190, 58, 2,
      209, 94, 120, 123, 99, 47, 205, 38, 103, 191, 166, 162, 243, 80, 115, 182]"
proof -
  have "ToLower (TrimSpace ''act act act act act act act act act act act act'') =
      ''act act act act act act act act act act act act''"
    and "ToLower (TrimSpace ''add add add add add add add add add add add add'') =
      ''add add add add add add add add add add add add''"
    by code_simp+
  then show
    "HashRecoveryPhrase ''act act act act act act act act act act act act'' =
     [17, 196, 66, 219, 73, 51, 63, 145, 131, 160, 78, 119, 112, 118, 153, 82,
      21, 10, 129, 160, 150, 163, 42, 182, 7, 230, 56, 180, 82, 118, 27, 75]"
    "HashRecoveryPhrase ''add add add add add add add add add add add add'' =
     [146, 220, 106, 23, 200, 162, 51, 88, 80, 57, 148, 170, 82, 190, 58, 2,
      209, 94, 120, 123, 99, 47, 205, 38, 103, 191, 166, 162, 243, 80, 115, 182]"
    by (simp_all only: HashRecoveryPhrase_def Let_def sha256_act_phrase sha256_add_phrase)
qed

lemma bob_begins:
  "beginRegistration bob_begin_env (Some bob_begin) before_bob =
     (RegisterBeginResponse ''options'' ''act act act act act act act act act act act act'' ''handle-2'',
      example_state)"
proof -
  have fields: "now bob_begin_env = 0" "\<not> db_fails bob_begin_env s"
    "wa_begin bob_begin_env = Some (''options'', ''challenge-2'')"
    "pool_phrase bob_begin_env = concat (replicate 8 [0, 19])"
    "new_uuid bob_begin_env 0 = ''user-2''" "new_uuid bob_begin_env (Suc 0) = ''handle-2''" for s
    by (simp_all add: bob_begin_env_def idle_env_def)
  have free: "GetByUsername False False (db before_bob) ''bob'' = Inl ErrNotFound"
    by (simp add: before_bob_def example_db_def GetByUsername_def load_user_def alice_def)
  show ?thesis
    by (simp add: beginRegistration_def bob_begin_def fields free bob_phrases Let_def)
      (auto simp add: before_bob_def example_state_def SessionStore_Save_def NewSessionStore_def fields
        minute_def fun_eq_iff)
qed

theorem C5_stored_hash_is_of_a_phrase_generated_at_finish_witness:
  "beginRegistration bob_begin_env (Some bob_begin) before_bob =
     (RegisterBeginResponse ''options'' ''act act act act act act act act act act act act'' ''handle-2'',
      example_state) \<and>
   fst (finishRegistration toy_primitives bob_finish_env (Some bob_finish) example_state) =
     AuthResponse
       \<lparr>Claims_UserID = ''user-2'', Claims_EncryptedDEK = base64_EncodeToString bob_wrapped_dek,
        Claims_ExpiresAt = minute + 24 * 60 * minute, Claims_IssuedAt = minute, Claims_Issuer = ''ownu''\<rparr>
       ''user-2'' ''bob'' \<and>
   RecoveryPhraseHash (last (users (db (snd (finishRegistration toy_primitives bob_finish_env
                                               (Some bob_finish) example_state))))) =
     HashRecoveryPhrase ''add add add add add add add add add add add add'' \<and>
   VerifyRecoveryPhrase ''act act act act act act act act act act act act''
     (RecoveryPhraseHash (last (users (db (snd (finishRegistration toy_primitives bob_finish_env
                                                  (Some bob_finish) example_state)))))) = False"
proof -
  let ?run = "finishRegistration toy_primitives bob_finish_env (Some bob_finish) example_state"
  have run: "?run =
      (AuthResponse
         \<lparr>Claims_UserID = ''user-2'', Claims_EncryptedDEK = base64_EncodeToString bob_wrapped_dek,
          Claims_ExpiresAt = minute + 24 * 60 * minute, Claims_IssuedAt = minute, Claims_Issuer = ''ownu''\<rparr>
         ''user-2'' ''bob'', snd ?run)"
    using bob_registration [of "\<lambda>_. False"] bob_finish_env_alt by simp
  have phrase: "pool_phrase bob_finish_env = concat (replicate 8 [0, 25])"
    by (simp add: bob_finish_env_def idle_env_def)
  have stored: "RecoveryPhraseHash (last (users (db (snd ?run)))) =
      HashRecoveryPhrase ''add add add add add add add add add add add add''"
    using C5_stored_hash_is_of_a_phrase_generated_at_finish [OF run]
    by (auto simp add: phrase bob_phrases)
  have differ: "VerifyRecoveryPhrase ''act act act act act act act act act act act act''
      (HashRecoveryPhrase ''add add add add add add add add add add add add'') = False"
    by (simp add: VerifyRecoveryPhrase_def Let_def bob_hashes)
  from run have "fst ?run = AuthResponse
         \<lparr>Claims_UserID = ''user-2'', Claims_EncryptedDEK = base64_EncodeToString bob_wrapped_dek,
          Claims_ExpiresAt = minute + 24 * 60 * minute, Claims_IssuedAt = minute, Claims_Issuer = ''ownu''\<rparr>
         ''user-2'' ''bob''"
    by (metis fst_conv)
  with stored differ bob_begins show ?thesis
    by (simp only: simp_thms)
qed

subsection \<open>The key that wraps the data key\<close>

lemma Decrypt_other_key:
  assumes "aead_correct P" "aead_rejects_other_keys P" "length K = 32" "K' \<noteq> K"
    and "Encrypt P pool plaintext K = Inr c"
  shows "\<exists>e. Decrypt P c K' = Inl e"
proof -
  from assms(3,5) obtain nonce where nonce: "ReadFull pool (nonce_size P) = Some nonce"
    and c: "c = nonce @ aead_seal P K nonce plaintext"
    by (auto simp add: Encrypt_def split: option.splits)
  from nonce have len: "length nonce = nonce_size P"
    by (auto simp add: ReadFull_def split: if_splits)
  show ?thesis
  proof (cases "length K' = 32")
    case True
    with assms(2,3,4) have "aead_open P K' nonce (aead_seal P K nonce plaintext) = None"
      by (simp add: aead_rejects_other_keys_def)
    with len c show ?thesis
      by (simp add: Decrypt_def)
  next
    case False
    then show ?thesis
      by (simp add: Decrypt_def)
  qed
qed

lemma Encrypt_key_length: "Encrypt P pool plaintext K = Inr c \<Longrightarrow> length K = 32"
  by (simp add: Encrypt_def split: if_splits)

text \<open>
  Claim C1, as the code has it. Let the cipher be correct and open nothing under
  another key. When a registration succeeds, the token carries the wrapped data key of the
  stored user, and that opens to the data key under the key \<open>registration_kek\<close> derived
  for it. The only unwrapping the server does, \<open>decryptDEK\<close>, derives its key from the
  constant \<open>placeholder-secret\<close> and the stored salt instead: unless the registration
  key happens to be that very key, \<open>decryptDEK\<close> fails on the token of the user.
\<close>

theorem C1_token_key_opens_under_registration_key_only:
  assumes "aead_correct P" and "aead_rejects_other_keys P"
    and "finishRegistration P E (Some req) st = (AuthResponse token uid uname, st')"
  shows "\<exists>user dek kek.
           users (db st') = users (db st) @ [user] \<and> User_ID user = uid \<and>
           Claims_EncryptedDEK token = base64_EncodeToString (EncryptedDEK user) \<and>
           GenerateDEK (pool_dek E) = Inr dek \<and>
           registration_kek P E req (DEKSalt user) = Inr kek \<and>
           DecryptDEK P (EncryptedDEK user) kek = Inr dek \<and>
           (kek \<noteq> DeriveKeyFromSecret P (string_bytes ''placeholder-secret'') (DEKSalt user) \<longrightarrow>
              (\<exists>e. decryptDEK P (Claims_EncryptedDEK token) user = Inl e))"
proof -
  from assms(3) obtain sd dek salt kek encryptedDEK
    where uid: "uid = SD_UserID sd"
      and dek: "GenerateDEK (pool_dek E) = Inr dek"
      and kek: "registration_kek P E req salt = Inr kek"
      and wrapped: "EncryptDEK P (pool_nonce E) dek kek = Inr encryptedDEK"
      and token: "Claims_EncryptedDEK token = base64_EncodeToString encryptedDEK"
      and users: "users (db st') = users (db st) @ [new_user E sd encryptedDEK salt]"
    by (rule finishRegistration_success)
  let ?user = "new_user E sd encryptedDEK salt"
  have fields: "User_ID ?user = SD_UserID sd" "EncryptedDEK ?user = encryptedDEK" "DEKSalt ?user = salt"
    by (simp_all add: new_user_def Let_def)
  from wrapped have sealed: "Encrypt P (pool_nonce E) dek kek = Inr encryptedDEK"
    by (simp add: EncryptDEK_def)
  then have len: "length kek = 32"
    by (rule Encrypt_key_length)
  from assms(1) len sealed have opens: "DecryptDEK P encryptedDEK kek = Inr dek"
    by (simp add: DecryptDEK_def Decrypt_Encrypt)
  have other: "\<exists>e. decryptDEK P (Claims_EncryptedDEK token) ?user = Inl e"
    if "kek \<noteq> DeriveKeyFromSecret P (string_bytes ''placeholder-secret'') salt"
  proof -
    from that have "DeriveKeyFromSecret P (string_bytes ''placeholder-secret'') salt \<noteq> kek"
      by simp
    from Decrypt_other_key [OF assms(1,2) len this sealed]
    show ?thesis
      by (simp add: decryptDEK_def token base64_roundtrip fields DecryptDEK_def)
  qed
  from uid dek kek opens other users token show ?thesis
    by (intro exI [of _ ?user] exI [of _ dek] exI [of _ kek]) (simp add: fields)
qed

text \<open>
  The stand-in cipher opens nothing under another key, and bob's registration key (from
  the random hex secret, no PRF output having been sent) is not the placeholder key.
\<close>

lemma toy_rejects_other_keys: "aead_rejects_other_keys toy_primitives"
proof -
  have "toy_open key' nonce (toy_seal key nonce plaintext) = None"
    if "length key = 32" "length key' = 32" "key' \<noteq> key" for key key' :: bytes and nonce plaintext
    using that by (simp add: toy_open_def toy_seal_def toy_tag_def)
  then show ?thesis
    by (simp add: aead_rejects_other_keys_def toy_primitives_def)
qed

lemma bob_kek_is_not_placeholder_kek: "bob_kek \<noteq> placeholder_kek"
proof -
  have r: "replicate 32 (3 :: byte) = 3 # replicate 31 3"
    by (simp add: numeral_eq_Suc)
  have "hd bob_kek = 48" "hd placeholder_kek = 112"
    by (simp_all add: bob_kek_def placeholder_kek_def DeriveKeyFromSecret_def toy_primitives_def toy_kdf_def
        argonKeyLen_def string_bytes_def hex_EncodeToString_def hex_digit_def r)
  then show ?thesis
    by auto
qed

theorem C1_token_key_opens_under_registration_key_only_witness:
  "fst (finishRegistration toy_primitives bob_finish_env (Some bob_finish) example_state) =
     AuthResponse
       \<lparr>Claims_UserID = ''user-2'', Claims_EncryptedDEK = base64_EncodeToString bob_wrapped_dek,
        Claims_ExpiresAt = minute + 24 * 60 * minute, Claims_IssuedAt = minute, Claims_Issuer = ''ownu''\<rparr>
       ''user-2'' ''bob'' \<and>
   registration_kek toy_primitives bob_finish_env bob_finish example_salt = Inr bob_kek \<and>
   DecryptDEK toy_primitives bob_wrapped_dek bob_kek = Inr example_dek \<and>
   decryptDEK toy_primitives (base64_EncodeToString bob_wrapped_dek)
     (last (users (db (snd (finishRegistration toy_primitives bob_finish_env
                              (Some bob_finish) example_state))))) = Inl IntegrityError"
proof -
  let ?run = "finishRegistration toy_primitives bob_finish_env (Some bob_finish) example_state"
  let ?token = "\<lparr>Claims_UserID = ''user-2'', Claims_EncryptedDEK = base64_EncodeToString bob_wrapped_dek,
          Claims_ExpiresAt = minute + 24 * 60 * minute, Claims_IssuedAt = minute, Claims_Issuer = ''ownu''\<rparr>"
  let ?bob = "new_user bob_finish_env
      \<lparr>Session = ''challenge-2'', SD_Username = ''bob'', SD_UserID = ''user-2'', ExpiresAt = 5 * minute\<rparr>
      bob_wrapped_dek example_salt"
  have full: "?run = (AuthResponse ?token ''user-2'' ''bob'',
        example_state\<lparr>db := example_db\<lparr>users := [alice, ?bob],
            credentials := [alice_credential,
              \<lparr>Cred_ID = [7, 7, 7], Cred_UserID = ''user-2'', PublicKey = [8, 8, 8], AttestationType = ''none'',
               SignCount = 0, Cred_CreatedAt = minute\<rparr>]\<rparr>,
          sessions := SessionStore_Delete (sessions example_state) ''handle-2''\<rparr>)"
    using bob_registration [of "\<lambda>_. False"] bob_finish_env_alt by simp
  then have run: "?run = (AuthResponse ?token ''user-2'' ''bob'', snd ?run)"
    by simp
  have last: "last (users (db (snd ?run))) = ?bob"
    by (simp add: full)
  have fields: "EncryptedDEK ?bob = bob_wrapped_dek" "DEKSalt ?bob = example_salt"
    by (simp_all add: new_user_def Let_def)
  have secret: "pool_secret bob_finish_env = replicate 32 3"
    by (simp add: bob_finish_env_def idle_env_def)
  have kek: "registration_kek toy_primitives bob_finish_env bob_finish example_salt = Inr bob_kek"
    using secret by (rule bob_keys(3))
  have short: "Decrypt toy_primitives bob_wrapped_dek placeholder_kek = Inl e \<Longrightarrow> e = IntegrityError" for e
    by (simp add: Decrypt_def placeholder_kek_length split: if_splits option.splits)
  have pool: "pool_dek bob_finish_env = replicate 32 7"
    by (simp add: bob_finish_env_def idle_env_def)
  from C1_token_key_opens_under_registration_key_only [OF toy_aead_correct toy_rejects_other_keys run]
  obtain user dek k where "users (db (snd ?run)) = users (db example_state) @ [user]"
    and k: "registration_kek toy_primitives bob_finish_env bob_finish (DEKSalt user) = Inr k"
    and opens: "DecryptDEK toy_primitives (EncryptedDEK user) k = Inr dek"
    and dek: "GenerateDEK (pool_dek bob_finish_env) = Inr dek"
    and other: "k \<noteq> DeriveKeyFromSecret toy_primitives (string_bytes ''placeholder-secret'') (DEKSalt user) \<longrightarrow>
         (\<exists>e. decryptDEK toy_primitives (Claims_EncryptedDEK ?token) user = Inl e)"
    by blast
  with last have user: "user = ?bob"
    by simp
  from k kek have "k = bob_kek"
    by (simp add: user fields)
  moreover from dek have "dek = example_dek"
    by (simp add: pool bob_keys(1))
  ultimately have "DecryptDEK toy_primitives bob_wrapped_dek bob_kek = Inr example_dek"
    using opens by (simp add: user fields)
  moreover from other \<open>k = bob_kek\<close> bob_kek_is_not_placeholder_kek
  obtain e where "decryptDEK toy_primitives (base64_EncodeToString bob_wrapped_dek) ?bob = Inl e"
    by (auto simp add: user fields placeholder_kek_def)
  then have "decryptDEK toy_primitives (base64_EncodeToString bob_wrapped_dek) ?bob = Inl IntegrityError"
    using short [of e]
    by (simp add: decryptDEK_def base64_roundtrip fields DecryptDEK_def placeholder_kek_def)
  moreover from run have "fst ?run = AuthResponse ?token ''user-2'' ''bob''"
    by (metis fst_conv)
  ultimately show ?thesis
    using kek last by (simp only: simp_thms)
qed

section \<open>Recovery phrases\<close>

text \<open>
  Two phrases with the same trimmed, lower-cased form verify against each other's hash:
  the comparison of a digest with itself leaves no difference.
\<close>

lemma VerifyRecoveryPhrase_fold:
  "foldl (\<lambda>diff (h, s). diff OR (h XOR s)) (d :: byte) (zip xs xs) = d"
  by (induction xs arbitrary: d) simp_all

lemma VerifyRecoveryPhrase_same_normal_form:
  assumes "ToLower (TrimSpace p') = ToLower (TrimSpace p)"
  shows "VerifyRecoveryPhrase p' (HashRecoveryPhrase p)"
  using assms by (simp add: VerifyRecoveryPhrase_def HashRecoveryPhrase_def Let_def VerifyRecoveryPhrase_fold)

lemma narrow_and_wide:
  "ToLower (TrimSpace ''a b'') = ''a b''" "ToLower (TrimSpace ''a  b'') = ''a  b''"
  "ToLower (TrimSpace '' A B '') = ''a b''"
  "Join (Fields ''a  b'') '' '' = ''a b''"
  "Join (Fields ''a b'') '' '' = ''a b''"
  by code_simp+

text \<open>
  Claim C9, on the code. \<open>HashRecoveryPhrase\<close> trims and lower-cases the phrase, and
  that is all: a variant in case and surrounding whitespace verifies, but one whose
  internal run of whitespace is wider does not, although \<open>DeriveKeyFromPassphrase\<close>,
  which collapses the runs, derives the same key from both.
\<close>

theorem C9_wider_internal_whitespace_does_not_verify:
  "VerifyRecoveryPhrase '' A B '' (HashRecoveryPhrase ''a b'') = True \<and>
   VerifyRecoveryPhrase ''a  b'' (HashRecoveryPhrase ''a b'') = False \<and>
   DeriveKeyFromPassphrase P ''a  b'' salt = DeriveKeyFromPassphrase P ''a b'' salt"
proof -
  have "VerifyRecoveryPhrase '' A B '' (HashRecoveryPhrase ''a b'')"
    by (rule VerifyRecoveryPhrase_same_normal_form) (simp only: narrow_and_wide)
  moreover have "VerifyRecoveryPhrase ''a  b'' (HashRecoveryPhrase ''a b'') = False"
    by (simp add: VerifyRecoveryPhrase_def HashRecoveryPhrase_def Let_def narrow_and_wide
        sha256_a_b sha256_a_b_wide)
  moreover have "DeriveKeyFromPassphrase P ''a  b'' salt = DeriveKeyFromPassphrase P ''a b'' salt"
    by (simp only: DeriveKeyFromPassphrase_def Let_def narrow_and_wide)
  ultimately show ?thesis
    by simp
qed

end
